theory Spec2Isabelle
  imports Complex_Main
begin

section \<open>JavaScript values and strings\<close>

text \<open>
  The server (the Express application of \<^verbatim>\<open>src/public/admin.js\<close>, lines 642-1207) is
  modelled function by function. A JavaScript string is a \<open>string\<close>, one \<open>char\<close> per
  UTF-16 code unit (code units below 256), so \<open>length\<close> is \<^verbatim>\<open>.length\<close>.

  A JavaScript number is an IEEE double: a finite double is a rational, and the three
  values that are not (and the negative zero, which prints differently) have
  constructors of their own.
\<close>

datatype jsnum = NaN | Fin rat | NegZero | PosInfinity | NegInfinity

datatype jsval =
    JUndefined
  | JNull
  | JBool bool
  | JNum jsnum
  | JStr string
  | JArr "jsval list"
  | JObj "(string \<times> jsval) list"

text \<open>
  An object read by property name; a property that is not there reads \<open>undefined\<close>.
  A nested object (\<open>JObj\<close>) lists each of its properties once.
\<close>

type_synonym jsobject = "string \<rightharpoonup> jsval"

definition getProp :: "jsobject \<Rightarrow> string \<Rightarrow> jsval" where
  "getProp d k = (case d k of None \<Rightarrow> JUndefined | Some v \<Rightarrow> v)"

text \<open>\<^verbatim>\<open>ToBoolean\<close>, as \<^verbatim>\<open>if (x)\<close>, \<^verbatim>\<open>!x\<close>, \<^verbatim>\<open>x && y\<close> and \<^verbatim>\<open>x || y\<close> apply it.\<close>

fun truthy :: "jsval \<Rightarrow> bool" where
  "truthy JUndefined = False"
| "truthy JNull = False"
| "truthy (JBool b) = b"
| "truthy (JNum n) = (n \<noteq> NaN \<and> n \<noteq> Fin 0 \<and> n \<noteq> NegZero)"
| "truthy (JStr s) = (s \<noteq> [])"
| "truthy (JArr xs) = True"
| "truthy (JObj kvs) = True"

definition js_or :: "jsval \<Rightarrow> jsval \<Rightarrow> jsval" where
  "js_or a b = (if truthy a then a else b)"

text \<open>\<^verbatim>\<open>x.length\<close> of a value that is neither \<open>undefined\<close> nor \<open>null\<close>.\<close>

fun js_length :: "jsval \<Rightarrow> jsval" where
  "js_length (JStr s) = JNum (Fin (of_nat (length s)))"
| "js_length (JArr xs) = JNum (Fin (of_nat (length xs)))"
| "js_length (JObj kvs) = (case map_of kvs ''length'' of None \<Rightarrow> JUndefined | Some v \<Rightarrow> v)"
| "js_length v = JUndefined"

text \<open>\<^verbatim>\<open>amount > 100000\<close>: false for \<open>NaN\<close>.\<close>

fun gt_threshold :: "jsnum \<Rightarrow> bool" where
  "gt_threshold (Fin r) = (r > 100000)"
| "gt_threshold PosInfinity = True"
| "gt_threshold n = False"

definition isDigit :: "char \<Rightarrow> bool" where
  "isDigit c = (c \<in> set ''0123456789'')"

text \<open>The class \<^verbatim>\<open>\w\<close> of a regular expression without the unicode flag.\<close>

definition isWordChar :: "char \<Rightarrow> bool" where
  "isWordChar c =
     (c \<in> set ''abcdefghijklmnopqrstuvwxyzABCDEFGHIJKLMNOPQRSTUVWXYZ0123456789_'')"

text \<open>White space and line terminators among the code units below 256.\<close>

definition isWhiteSpace :: "char \<Rightarrow> bool" where
  "isWhiteSpace c =
     (c \<in> set [CHR 0x09, CHR 0x0A, CHR 0x0B, CHR 0x0C, CHR 0x0D, CHR 0x20, CHR 0xA0])"

definition trim :: "string \<Rightarrow> string" where
  "trim s = rev (dropWhile isWhiteSpace (rev (dropWhile isWhiteSpace s)))"

definition toLowerChar :: "char \<Rightarrow> char" where
  "toLowerChar c =
     (let n = (of_char c :: nat)
      in if (65 \<le> n \<and> n \<le> 90) \<or> (192 \<le> n \<and> n \<le> 222 \<and> n \<noteq> 215)
         then char_of (n + 32) else c)"

definition toLowerCase :: "string \<Rightarrow> string" where
  "toLowerCase s = map toLowerChar s"

text \<open>\<^verbatim>\<open>s.replace(/,/g, '')\<close>\<close>

definition removeCommas :: "string \<Rightarrow> string" where
  "removeCommas s = filter (\<lambda>c. c \<noteq> CHR '','') s"

definition startsWith :: "string \<Rightarrow> string \<Rightarrow> bool" where
  "startsWith s p = (take (length p) s = p)"

text \<open>\<^verbatim>\<open>Array.prototype.includes\<close> on an array of strings: only a string can be found.\<close>

fun array_includes :: "string list \<Rightarrow> jsval \<Rightarrow> bool" where
  "array_includes xs (JStr s) = (s \<in> set xs)"
| "array_includes xs v = False"

section \<open>The two regular expressions of processImage\<close>

text \<open>
  \<^verbatim>\<open>rawText.match(/\b\d{12}\b/g) || []\<close>: all matches, left to right, the search
  resuming where the last match ended. A match starts at a digit that no word
  character precedes, runs over twelve digits, and no word character follows it.
  The first argument says whether the character before the current position is a word
  character.
\<close>

fun scanTwelveDigit :: "bool \<Rightarrow> string \<Rightarrow> string list" where
  "scanTwelveDigit prevWord [] = []"
| "scanTwelveDigit prevWord (c # cs) =
     (if \<not> prevWord \<and> 12 \<le> length (c # cs) \<and> list_all isDigit (take 12 (c # cs))
         \<and> (case drop 12 (c # cs) of [] \<Rightarrow> True | e # es \<Rightarrow> \<not> isWordChar e)
      then take 12 (c # cs) # scanTwelveDigit True (drop 12 (c # cs))
      else scanTwelveDigit (isWordChar c) cs)"

definition twelveDigitMatches :: "string \<Rightarrow> string list" where
  "twelveDigitMatches rawText = scanTwelveDigit False rawText"

text \<open>
  \<^verbatim>\<open>extractedDataText.match(/\{[\s\S]*\}/)\<close>: from the first opening brace to the last
  closing brace after it; \<open>None\<close> is the \<^verbatim>\<open>null\<close> of no match.
\<close>

definition jsonMatch :: "string \<Rightarrow> string option" where
  "jsonMatch t =
     (case dropWhile (\<lambda>c. c \<noteq> CHR ''{'') t of
        [] \<Rightarrow> None
      | b # rest \<Rightarrow>
          if CHR ''}'' \<in> set rest
          then Some (b # rev (dropWhile (\<lambda>c. c \<noteq> CHR ''}'') (rev rest)))
          else None)"

section \<open>What the server calls and does not define\<close>

text \<open>
  The built-in functions whose results depend on floating point or on a grammar the
  source does not contain are parameters: \<^verbatim>\<open>parseFloat\<close>, \<^verbatim>\<open>Number.prototype.toFixed(2)\<close>,
  \<^verbatim>\<open>JSON.parse\<close> (\<open>None\<close>: it throws a SyntaxError; the text it is given starts and ends
  with a brace, so what it returns is an object), \<^verbatim>\<open>parseInt\<close> and \<^verbatim>\<open>new Date(string)\<close>
  (\<open>None\<close>: \<open>NaN\<close>, an invalid date), and \<^verbatim>\<open>Number.prototype.toString\<close>.
\<close>

record builtins =
  parseFloat :: "string \<Rightarrow> jsnum"
  toFixed2 :: "jsnum \<Rightarrow> string"
  JSON_parse :: "string \<Rightarrow> jsobject option"
  parseInt :: "string \<Rightarrow> int option"
  parseDate :: "string \<Rightarrow> int option"
  numberToString :: "jsnum \<Rightarrow> string"

text \<open>
  The generative model is external: a request comes with the text each call would
  answer (\<open>None\<close>: the call fails and throws).
\<close>

record model_replies =
  rawTextReply :: "string option"
  extractionReply :: "string option"
  verificationReply :: "string option"

datatype model_call = RawTextCall | ExtractionCall | VerificationCall

section \<open>processImage\<close>

definition error_object :: "string \<Rightarrow> jsobject" where
  "error_object msg = Map.empty(''error'' \<mapsto> JStr msg)"

text \<open>Lines 908-922: the reply of the verification call decides the amount.\<close>

definition verifyAmount :: "builtins \<Rightarrow> jsnum \<Rightarrow> string \<Rightarrow> jsobject \<Rightarrow> jsobject" where
  "verifyAmount b amount reply d =
     (let verifiedAmountText = trim reply;
          verifiedAmount =
            (if toLowerCase verifiedAmountText = ''correct'' then amount
             else if toLowerCase verifiedAmountText = ''not found'' then amount
             else parseFloat b verifiedAmountText)
      in if verifiedAmount \<noteq> NaN
         then d(''amount_in_inr'' \<mapsto> JStr (toFixed2 b verifiedAmount))
         else d)"

text \<open>
  Lines 883-924. The result is \<open>None\<close> when the block throws: the verification call
  fails, or \<^verbatim>\<open>amount_in_inr\<close> is a truthy value that is not a string and so has no
  \<^verbatim>\<open>replace\<close> method. The second component lists the calls made to the model.
\<close>

definition checkAmount ::
  "builtins \<Rightarrow> model_replies \<Rightarrow> jsobject \<Rightarrow> jsobject option \<times> model_call list" where
  "checkAmount b m d =
     (if truthy (getProp d ''amount_in_inr'') then
        (case getProp d ''amount_in_inr'' of
           JStr s \<Rightarrow>
             (let amount = parseFloat b (removeCommas s)
              in if gt_threshold amount then
                   (case verificationReply m of
                      None \<Rightarrow> (None, [VerificationCall])
                    | Some reply \<Rightarrow> (Some (verifyAmount b amount reply d), [VerificationCall]))
                 else (Some d, []))
         | _ \<Rightarrow> (None, []))
      else (Some d, []))"

text \<open>Lines 926-934.\<close>

definition selectUtr :: "string list \<Rightarrow> jsobject \<Rightarrow> jsobject" where
  "selectUtr utrMatches d =
     (case utrMatches of
        [] \<Rightarrow> d
      | first # others \<Rightarrow>
          if \<not> truthy (getProp d ''utr'') \<or> \<not> array_includes utrMatches (getProp d ''utr'') then
            (let utr = (case find (\<lambda>num. startsWith num ''4'') utrMatches of
                          Some utrWith4 \<Rightarrow> utrWith4 | None \<Rightarrow> first);
                 d1 = d(''utr'' \<mapsto> JStr utr)
             in if 1 < length utrMatches
                then d1(''utr_alternatives'' \<mapsto> JArr (map JStr (filter (\<lambda>u. u \<noteq> utr) utrMatches)))
                else d1)
          else d)"

text \<open>
  Lines 880-881: the object parsed from the first text in braces of the model's answer,
  or the error object when there is none; \<open>None\<close> when \<^verbatim>\<open>JSON.parse\<close> throws.
\<close>

definition parseExtraction :: "builtins \<Rightarrow> string \<Rightarrow> jsobject option" where
  "parseExtraction b extractedDataText =
     (case jsonMatch extractedDataText of
        None \<Rightarrow> Some (error_object ''Failed to extract structured data from the text.'')
      | Some j \<Rightarrow> JSON_parse b j)"

text \<open>
  The body of the \<^verbatim>\<open>try\<close> block of processImage (lines 811-935): \<open>None\<close> when it
  throws.
\<close>

definition processImage_try ::
  "builtins \<Rightarrow> model_replies \<Rightarrow> jsobject option \<times> model_call list" where
  "processImage_try b m =
     (case rawTextReply m of
        None \<Rightarrow> (None, [RawTextCall])
      | Some r \<Rightarrow>
          (let rawText = trim r;
               utrMatches = twelveDigitMatches rawText
           in case extractionReply m of
                None \<Rightarrow> (None, [RawTextCall, ExtractionCall])
              | Some extractedDataText \<Rightarrow>
                  (case parseExtraction b extractedDataText of
                     None \<Rightarrow> (None, [RawTextCall, ExtractionCall])
                   | Some extractedData \<Rightarrow>
                       (case checkAmount b m extractedData of
                          (None, cs) \<Rightarrow> (None, [RawTextCall, ExtractionCall] @ cs)
                        | (Some d, cs) \<Rightarrow>
                            (Some (selectUtr utrMatches d), [RawTextCall, ExtractionCall] @ cs)))))"

text \<open>processImage: the \<^verbatim>\<open>catch\<close> block turns every exception into an error object.\<close>

definition processImage :: "builtins \<Rightarrow> model_replies \<Rightarrow> jsobject \<times> model_call list" where
  "processImage b m =
     (case processImage_try b m of
        (None, cs) \<Rightarrow> (error_object ''An error occurred while processing the image.'', cs)
      | (Some d, cs) \<Rightarrow> (d, cs))"

section \<open>The store\<close>

text \<open>
  The three Mongoose models (lines 676-714). A document identifier is a number. The
  string fields of a Transaction and the fields of a Log's \<^verbatim>\<open>processingData\<close> hold the
  values the handler hands to the constructor, cast to the type the schema declares
  (a field that is absent or \<^verbatim>\<open>null\<close> stays so). Times are milliseconds since the epoch.
\<close>

record user =
  user_id :: nat
  apiKey :: string
  name :: string
  email :: string
  isAdmin :: bool
  requestCount :: int
  createdAt :: int

record transaction =
  t_userId :: nat
  t_date :: jsval
  t_utr :: jsval
  t_amount_in_inr :: jsval
  t_createdAt :: int

record log_entry =
  l_userId :: nat
  l_timestamp :: int
  l_date :: jsval
  l_utr :: jsval
  l_amount_in_inr :: jsval
  l_is_edited :: jsval

record store =
  users :: "user list"
  transactions :: "transaction list"
  logs :: "log_entry list"

text \<open>
  The operations on the database and the mail relay that a handler awaits inside a
  \<^verbatim>\<open>try\<close> block. Each can fail; a request comes with the set of those that do.
\<close>

datatype operation =
    FindUserByKey | FindUserById | SaveUser | SendMail | FindUsers | CountLogs
  | SaveTransaction | SaveLog | IncrementRequestCount | FindLogs

record environment =
  now :: int
  model :: model_replies
  fails :: "operation set"
  randomHex :: string
  dbConnected :: bool

datatype route = PostAdminUsers | GetAdminUsers | PostProcessImage | GetLogs | GetHealth

text \<open>
  A request: its route, the X-API-Key header, the size of the file in the multipart
  field \<^verbatim>\<open>image\<close>, the fields of a JSON body, the parameters of the query string,
  whether it declares a JSON body that \<^verbatim>\<open>express.json()\<close> refuses (not well-formed, or
  too large), and whether it carries a file in a multipart field other than \<^verbatim>\<open>image\<close>.
\<close>

record request =
  route :: route
  xApiKey :: "string option"
  imageSize :: "nat option"
  bodyName :: "string option"
  bodyEmail :: "string option"
  queryStartDate :: "string option"
  queryEndDate :: "string option"
  queryPage :: "string option"
  queryLimit :: "string option"
  malformedBody :: bool
  unexpectedFile :: bool

record user_entry =
  e_id :: nat
  e_name :: string
  e_email :: string
  e_apiKey :: string
  e_requestCount :: nat
  e_createdAt :: int

record formatted_log =
  f_timestamp :: int
  f_username :: string
  f_date :: jsval
  f_utr :: jsval
  f_amount_in_inr :: jsval
  f_is_edited :: jsval

text \<open>
  The JSON bodies the handlers send. A date sent as an ISO string is kept as its time
  in milliseconds.
\<close>

datatype body =
    ErrorBody jsval
  | UnexpectedErrorBody
  | TooManyRequestsBody string nat int
  | UserCreatedBody nat string string string
  | UserListBody "user_entry list"
  | ImageProcessedBody jsobject nat int
  | LogsBody "formatted_log list" nat jsnum jsnum
  | HealthBody int bool

record response =
  status :: nat
  body :: body

definition errorResponse :: "nat \<Rightarrow> string \<Rightarrow> response" where
  "errorResponse code msg = \<lparr>status = code, body = ErrorBody (JStr msg)\<rparr>"

section \<open>Authentication and authorisation\<close>

text \<open>authenticateUser (lines 768-785): \<open>Inl\<close> is the response sent, \<open>Inr\<close> is \<^verbatim>\<open>req.user\<close>.\<close>

definition authenticateUser :: "environment \<Rightarrow> store \<Rightarrow> request \<Rightarrow> response + user" where
  "authenticateUser env st req =
     (case xApiKey req of
        None \<Rightarrow> Inl (errorResponse 401 ''Unauthorized: API key required'')
      | Some userApiKey \<Rightarrow>
          if userApiKey = [] then Inl (errorResponse 401 ''Unauthorized: API key required'')
          else if FindUserByKey \<in> fails env
          then Inl (errorResponse 500 ''Server error during authentication'')
          else (case find (\<lambda>u. apiKey u = userApiKey) (users st) of
                  None \<Rightarrow> Inl (errorResponse 401 ''Unauthorized: Invalid API key'')
                | Some u \<Rightarrow> Inr u))"

text \<open>requireAdmin (lines 788-798) fetches the user again by identifier.\<close>

definition requireAdmin :: "environment \<Rightarrow> store \<Rightarrow> user \<Rightarrow> response + unit" where
  "requireAdmin env st reqUser =
     (if FindUserById \<in> fails env then Inl (errorResponse 500 ''Server error'')
      else (case find (\<lambda>u. user_id u = user_id reqUser) (users st) of
              None \<Rightarrow> Inl (errorResponse 403 ''Forbidden: Admin access required'')
            | Some u \<Rightarrow>
                if \<not> isAdmin u then Inl (errorResponse 403 ''Forbidden: Admin access required'')
                else Inr ()))"

section \<open>The rate limiter\<close>

text \<open>
  The options of lines 728-741 are the source's: the window, the maximum, the key (the
  user's identifier), the handler and the skip for administrators.
\<close>

definition windowMs :: int where
  "windowMs = 60 * 1000"

definition maxRequests :: nat where
  "maxRequests = 20"

text \<open>The counters: for a key, the start of its window and the requests counted in it.\<close>

type_synonym rate_hits = "nat \<rightharpoonup> int \<times> nat"

text \<open>
  Modelled from the spec: the counting of the express-rate-limit package, which the
  repository configures and does not contain. Section 4.2 of the specification calls it
  a fixed-window counter keyed by user identity: a request within the key's running
  window adds one to its count, a request after the window has ended starts a new
  window with count one. The result is the new table and the key's count.
\<close>

definition countHit :: "int \<Rightarrow> nat \<Rightarrow> rate_hits \<Rightarrow> rate_hits \<times> nat" where
  "countHit t k h =
     (case h k of
        None \<Rightarrow> (h(k \<mapsto> (t, 1)), 1)
      | Some (start, n) \<Rightarrow>
          if t < start + windowMs then (h(k \<mapsto> (start, n + 1)), n + 1)
          else (h(k \<mapsto> (t, 1)), 1))"

text \<open>
  createUserRateLimiter: \<open>Inl\<close> is the handler's response (lines 732-739), \<open>Inr\<close> lets the
  request through with \<^verbatim>\<open>req.rateLimit.remaining\<close> (\<open>None\<close> when the limiter was skipped).
\<close>

definition createUserRateLimiter ::
  "environment \<Rightarrow> user \<Rightarrow> rate_hits \<Rightarrow> (response + nat option) \<times> rate_hits" where
  "createUserRateLimiter env reqUser h =
     (if isAdmin reqUser then (Inr None, h)
      else (case countHit (now env) (user_id reqUser) h of
              (h', totalHits) \<Rightarrow>
                if maxRequests < totalHits
                then (Inl \<lparr>status = 429,
                           body = TooManyRequestsBody
                                    ''Too many requests, please try again in a minute.'' 0
                                    (now env + 60 * 1000)\<rparr>, h')
                else (Inr (Some (maxRequests - totalHits)), h')))"

text \<open>
  The middleware of lines 744-766 wraps \<^verbatim>\<open>res.send\<close>: when \<^verbatim>\<open>res.rateLimit\<close> is set it
  writes three headers before sending. A header value is text, the decimal digits of a
  number, or the ISO string of a time. \<^verbatim>\<open>toISOString\<close> throws on a time out of the range
  of a Date; the \<^verbatim>\<open>catch\<close> block then sends with the headers written so far.
\<close>

datatype header_value = HText string | HNumber int | HIsoDate int

text \<open>\<^verbatim>\<open>res.rateLimit\<close>, with numbers in its two fields.\<close>

record rate_limit_info =
  rl_remaining :: int
  rl_resetTime :: int

definition setRateLimitHeaders ::
  "environment \<Rightarrow> rate_limit_info option \<Rightarrow> (string \<rightharpoonup> header_value) \<Rightarrow> (string \<rightharpoonup> header_value)" where
  "setRateLimitHeaders env resRateLimit hs =
     (case resRateLimit of
        None \<Rightarrow> hs
      | Some info \<Rightarrow>
          (let remaining = max 0 (rl_remaining info);
               resetTime = now env + (if rl_resetTime info = 0 then 60000 else rl_resetTime info);
               hs1 = hs(''X-RateLimit-Limit'' \<mapsto> HText ''30'');
               hs2 = hs1(''X-RateLimit-Remaining'' \<mapsto> HNumber remaining)
           in if \<bar>resetTime\<bar> \<le> 8640000000000000
              then hs2(''X-RateLimit-Reset'' \<mapsto> HIsoDate resetTime)
              else hs2))"

section \<open>The administrator's endpoints\<close>

definition generateApiKey :: "environment \<Rightarrow> string" where
  "generateApiKey env = ''key_'' @ randomHex env"

definition freshId :: "user list \<Rightarrow> nat" where
  "freshId us = Suc (fold max (map user_id us) 0)"

text \<open>
  POST /api/admin/users (lines 943-984). \<^verbatim>\<open>newUser.save()\<close> fails when a required field
  is missing or empty, or when the key or the email is already stored (the schema
  declares both unique). When the mail cannot be sent the user stays stored.
\<close>

definition createUser :: "environment \<Rightarrow> request \<Rightarrow> store \<Rightarrow> response \<times> store" where
  "createUser env req st =
     (case (bodyName req, bodyEmail req) of
        (Some n, Some e) \<Rightarrow>
          if n = [] \<or> e = [] \<or> generateApiKey env \<in> set (map apiKey (users st))
             \<or> e \<in> set (map email (users st)) \<or> SaveUser \<in> fails env
          then (errorResponse 500 ''Error creating user'', st)
          else
            (let newUser = \<lparr>user_id = freshId (users st), apiKey = generateApiKey env,
                             name = n, email = e, isAdmin = False, requestCount = 0,
                             createdAt = now env\<rparr>;
                 st' = st\<lparr>users := users st @ [newUser]\<rparr>
             in if SendMail \<in> fails env then (errorResponse 500 ''Error creating user'', st')
                else (\<lparr>status = 200,
                       body = UserCreatedBody (user_id newUser) n e (generateApiKey env)\<rparr>, st'))
      | _ \<Rightarrow> (errorResponse 500 ''Error creating user'', st))"

text \<open>\<^verbatim>\<open>Log.countDocuments({ userId: user._id })\<close>\<close>

definition countLogs :: "store \<Rightarrow> nat \<Rightarrow> nat" where
  "countLogs st uid = length (filter (\<lambda>l. l_userId l = uid) (logs st))"

definition userWithCount :: "store \<Rightarrow> user \<Rightarrow> user_entry" where
  "userWithCount st u =
     \<lparr>e_id = user_id u, e_name = name u, e_email = email u, e_apiKey = apiKey u,
      e_requestCount = countLogs st (user_id u), e_createdAt = createdAt u\<rparr>"

text \<open>
  GET /api/admin/users (lines 986-1009): the users that are not administrators, newest
  first, each with the number of its logs.
\<close>

definition listUsers :: "environment \<Rightarrow> store \<Rightarrow> response" where
  "listUsers env st =
     (if FindUsers \<in> fails env then errorResponse 500 ''Error fetching users''
      else
        (let found = sort_key (\<lambda>u. - createdAt u) (filter (\<lambda>u. \<not> isAdmin u) (users st))
         in if found \<noteq> [] \<and> CountLogs \<in> fails env
            then errorResponse 500 ''Error fetching users''
            else \<lparr>status = 200, body = UserListBody (map (userWithCount st) found)\<rparr>))"

text \<open>
  The index on \<^verbatim>\<open>timestamp\<close> (line 704, \<^verbatim>\<open>expires: 864000\<close>) lets the database delete
  a log ten days after its time. What is left at time \<open>t\<close>:
\<close>

definition expireLogs :: "int \<Rightarrow> store \<Rightarrow> store" where
  "expireLogs t st = st\<lparr>logs := filter (\<lambda>l. t < l_timestamp l + 864000 * 1000) (logs st)\<rparr>"

section \<open>POST /api/process-image\<close>

text \<open>Lines 1031-1033.\<close>

definition normalizeUtr :: "jsobject \<Rightarrow> jsobject" where
  "normalizeUtr extractedData =
     (if truthy (getProp extractedData ''utr'')
         \<and> js_length (getProp extractedData ''utr'') \<noteq> JNum (Fin 12)
      then extractedData(''utr'' \<mapsto> JStr ''N/A'')
      else extractedData)"

text \<open>
  Mongoose casts each value to the type of its schema path when the document is built,
  and \<^verbatim>\<open>save()\<close> throws when a cast has failed (\<open>None\<close>). The cast to String keeps
  \<^verbatim>\<open>undefined\<close> and \<^verbatim>\<open>null\<close>, takes the \<^verbatim>\<open>_id\<close> of an object that has a non-empty string
  there, calls \<^verbatim>\<open>toString\<close> on a number or a boolean, and refuses arrays and other
  objects.
\<close>

fun castString :: "builtins \<Rightarrow> jsval \<Rightarrow> jsval option" where
  "castString b JUndefined = Some JUndefined"
| "castString b JNull = Some JNull"
| "castString b (JStr s) = Some (JStr s)"
| "castString b (JNum n) = Some (JStr (numberToString b n))"
| "castString b (JBool v) = Some (JStr (if v then ''true'' else ''false''))"
| "castString b (JArr xs) = None"
| "castString b (JObj kvs) =
     (case map_of kvs ''_id'' of
        Some (JStr i) \<Rightarrow> if i = [] then None else Some (JStr i)
      | _ \<Rightarrow> None)"

text \<open>
  The cast to Boolean (line 710) reads \<^verbatim>\<open>true\<close>, \<^verbatim>\<open>'true'\<close>, \<^verbatim>\<open>1\<close>, \<^verbatim>\<open>'1'\<close> and \<^verbatim>\<open>'yes'\<close> as
  true, \<^verbatim>\<open>false\<close>, \<^verbatim>\<open>'false'\<close>, \<^verbatim>\<open>0\<close>, \<^verbatim>\<open>'0'\<close> and \<^verbatim>\<open>'no'\<close> as false, keeps \<^verbatim>\<open>undefined\<close>
  and \<^verbatim>\<open>null\<close>, and refuses every other value.
\<close>

fun castBoolean :: "jsval \<Rightarrow> jsval option" where
  "castBoolean JUndefined = Some JUndefined"
| "castBoolean JNull = Some JNull"
| "castBoolean (JBool v) = Some (JBool v)"
| "castBoolean (JStr s) =
     (if s = ''true'' \<or> s = ''1'' \<or> s = ''yes'' then Some (JBool True)
      else if s = ''false'' \<or> s = ''0'' \<or> s = ''no'' then Some (JBool False)
      else None)"
| "castBoolean (JNum n) =
     (if n = Fin 1 then Some (JBool True)
      else if n = Fin 0 \<or> n = NegZero then Some (JBool False)
      else None)"
| "castBoolean (JArr xs) = None"
| "castBoolean (JObj kvs) = None"

text \<open>
  \<^verbatim>\<open>new Transaction({...})\<close> (lines 1035-1040): \<open>None\<close> when a field cannot be cast, so
  that \<^verbatim>\<open>transaction.save()\<close> throws.
\<close>

definition newTransaction ::
  "builtins \<Rightarrow> environment \<Rightarrow> user \<Rightarrow> jsobject \<Rightarrow> transaction option" where
  "newTransaction b env reqUser extractedData =
     (case (castString b (getProp extractedData ''date''),
            castString b (getProp extractedData ''utr''),
            castString b (getProp extractedData ''amount_in_inr'')) of
        (Some d, Some u, Some a) \<Rightarrow>
          Some \<lparr>t_userId = user_id reqUser, t_date = d, t_utr = u, t_amount_in_inr = a,
                t_createdAt = now env\<rparr>
      | _ \<Rightarrow> None)"

text \<open>
  \<^verbatim>\<open>new Log({...})\<close> (lines 1044-1052): \<open>None\<close> when a field cannot be cast, so that
  \<^verbatim>\<open>log.save()\<close> throws.
\<close>

definition newLog :: "builtins \<Rightarrow> environment \<Rightarrow> user \<Rightarrow> jsobject \<Rightarrow> log_entry option" where
  "newLog b env reqUser extractedData =
     (case (castString b (js_or (getProp extractedData ''date'') (JStr ''N/A'')),
            castString b (js_or (getProp extractedData ''utr'') (JStr ''N/A'')),
            castString b (js_or (getProp extractedData ''amount_in_inr'') (JStr ''N/A'')),
            castBoolean (js_or (getProp extractedData ''is_edited'') (JBool False))) of
        (Some d, Some u, Some a, Some e) \<Rightarrow>
          Some \<lparr>l_userId = user_id reqUser, l_timestamp = now env, l_date = d, l_utr = u,
                l_amount_in_inr = a, l_is_edited = e\<rparr>
      | _ \<Rightarrow> None)"

text \<open>\<^verbatim>\<open>UserProfile.findByIdAndUpdate(id, { $inc: { requestCount: 1 } })\<close>\<close>

fun incrementRequestCount :: "nat \<Rightarrow> user list \<Rightarrow> user list" where
  "incrementRequestCount uid [] = []"
| "incrementRequestCount uid (u # us) =
     (if user_id u = uid then u\<lparr>requestCount := requestCount u + 1\<rparr> # us
      else u # incrementRequestCount uid us)"

text \<open>
  The handler of lines 1016-1074, after authentication, the rate limiter and the upload.
  The three writes are not one transaction: a failure leaves the earlier writes stored.
\<close>

definition processImageHandler ::
  "builtins \<Rightarrow> environment \<Rightarrow> user \<Rightarrow> nat option \<Rightarrow> request \<Rightarrow> store \<Rightarrow> response \<times> store" where
  "processImageHandler b env reqUser reqRateLimit req st =
     (case imageSize req of
        None \<Rightarrow> (errorResponse 400 ''No image file uploaded'', st)
      | Some sz \<Rightarrow>
          (let extracted = fst (processImage b (model env))
           in if truthy (getProp extracted ''error'')
              then (\<lparr>status = 500, body = ErrorBody (getProp extracted ''error'')\<rparr>, st)
              else
                (let extractedData = normalizeUtr extracted;
                     failed = errorResponse 500 ''An error occurred while processing the image.''
                 in case newTransaction b env reqUser extractedData of
                      None \<Rightarrow> (failed, st)
                    | Some t \<Rightarrow>
                        if SaveTransaction \<in> fails env then (failed, st)
                        else
                          (let st1 = st\<lparr>transactions := transactions st @ [t]\<rparr>
                           in case newLog b env reqUser extractedData of
                                None \<Rightarrow> (failed, st1)
                              | Some l \<Rightarrow>
                                  if SaveLog \<in> fails env then (failed, st1)
                                  else
                                    (let st2 = st1\<lparr>logs := logs st1 @ [l]\<rparr>;
                                         st3 = st2\<lparr>users := incrementRequestCount
                                                                (user_id reqUser) (users st2)\<rparr>
                                     in if IncrementRequestCount \<in> fails env then (failed, st2)
                                        else (\<lparr>status = 200,
                                               body = ImageProcessedBody extractedData
                                                        (case reqRateLimit of
                                                           None \<Rightarrow> 0
                                                         | Some remaining \<Rightarrow> remaining)
                                                        (now env + 60000)\<rparr>, st3))))))"

section \<open>GET /api/logs\<close>

record log_query =
  q_userId :: nat
  q_gte :: "int option"
  q_lte :: "int option"

text \<open>
  \<^verbatim>\<open>endDateTime.setDate(endDateTime.getDate() + 1)\<close>: the same local time on the next
  day, 24 hours later where the server's clock does not change in between.
\<close>

definition nextDay :: "int \<Rightarrow> int" where
  "nextDay t = t + 24 * 60 * 60 * 1000"

text \<open>
  A date of the query string: \<open>None\<close> when the parameter is absent or empty (it is
  tested for truth), else what \<^verbatim>\<open>new Date\<close> makes of it.
\<close>

definition dateParam :: "builtins \<Rightarrow> string option \<Rightarrow> int option option" where
  "dateParam b p =
     (case p of None \<Rightarrow> None | Some s \<Rightarrow> if s = [] then None else Some (parseDate b s))"

text \<open>
  Lines 1086-1098. \<open>None\<close>: a bound is an invalid date, which the find refuses.
\<close>

definition buildLogQuery :: "builtins \<Rightarrow> user \<Rightarrow> request \<Rightarrow> log_query option" where
  "buildLogQuery b reqUser req =
     (case (dateParam b (queryStartDate req), dateParam b (queryEndDate req)) of
        (Some None, e) \<Rightarrow> None
      | (s, Some None) \<Rightarrow> None
      | (s, e) \<Rightarrow>
          Some \<lparr>q_userId = user_id reqUser,
                q_gte = (case s of None \<Rightarrow> None | Some t \<Rightarrow> t),
                q_lte = (case e of None \<Rightarrow> None | Some t \<Rightarrow> map_option nextDay t)\<rparr>)"

definition matchesQuery :: "log_query \<Rightarrow> log_entry \<Rightarrow> bool" where
  "matchesQuery q l =
     (l_userId l = q_userId q
      \<and> (case q_gte q of None \<Rightarrow> True | Some t \<Rightarrow> t \<le> l_timestamp l)
      \<and> (case q_lte q of None \<Rightarrow> True | Some t \<Rightarrow> l_timestamp l \<le> t))"

text \<open>
  \<^verbatim>\<open>Log.find(query).sort({ timestamp: -1 }).skip(s).limit(n)\<close>. The database refuses a
  negative skip (\<open>None\<close>), reads a limit of zero as no limit and a negative limit as its
  absolute value. Logs of equal time keep their stored order.
\<close>

definition findLogs :: "log_query \<Rightarrow> int \<Rightarrow> int \<Rightarrow> log_entry list \<Rightarrow> log_entry list option" where
  "findLogs q skip limit ls =
     (if skip < 0 then None
      else
        (let rest = drop (nat skip) (sort_key (\<lambda>l. - l_timestamp l) (filter (matchesQuery q) ls))
         in Some (if limit = 0 then rest else take (nat \<bar>limit\<bar>) rest)))"

text \<open>\<^verbatim>\<open>Math.ceil(total / parseInt(limit))\<close>\<close>

definition pageCount :: "nat \<Rightarrow> int \<Rightarrow> jsnum" where
  "pageCount n limit =
     (if limit = 0 then (if n = 0 then NaN else PosInfinity)
      else if limit < 0 \<and> \<lceil>(of_nat n :: rat) / of_int limit\<rceil> = 0 then NegZero
      else Fin (of_int \<lceil>(of_nat n :: rat) / of_int limit\<rceil>))"

definition formatLog :: "store \<Rightarrow> log_entry \<Rightarrow> formatted_log" where
  "formatLog st l =
     \<lparr>f_timestamp = l_timestamp l,
      f_username = (case find (\<lambda>u. user_id u = l_userId l) (users st) of
                      None \<Rightarrow> ''Unknown User''
                    | Some u \<Rightarrow> if name u = [] then ''Unknown User'' else name u),
      f_date = l_date l, f_utr = l_utr l, f_amount_in_inr = l_amount_in_inr l,
      f_is_edited = l_is_edited l\<rparr>"

text \<open>The handler of lines 1077-1135; \<^verbatim>\<open>page\<close> defaults to 1 and \<^verbatim>\<open>limit\<close> to 10.\<close>

definition getLogs :: "builtins \<Rightarrow> environment \<Rightarrow> user \<Rightarrow> request \<Rightarrow> store \<Rightarrow> response" where
  "getLogs b env reqUser req st =
     (let failed = errorResponse 500 ''An error occurred while retrieving logs.'';
          page = (case queryPage req of None \<Rightarrow> Some 1 | Some s \<Rightarrow> parseInt b s);
          limit = (case queryLimit req of None \<Rightarrow> Some 10 | Some s \<Rightarrow> parseInt b s)
      in case (buildLogQuery b reqUser req, page, limit) of
           (Some q, Some p, Some n) \<Rightarrow>
             if FindLogs \<in> fails env then failed
             else (case findLogs q ((p - 1) * n) n (logs st) of
                     None \<Rightarrow> failed
                   | Some found \<Rightarrow>
                       if CountLogs \<in> fails env then failed
                       else \<lparr>status = 200,
                             body = LogsBody (map (formatLog st) found)
                                      (length (filter (matchesQuery q) (logs st)))
                                      (Fin (of_int p))
                                      (pageCount (length (filter (matchesQuery q) (logs st))) n)\<rparr>)
         | _ \<Rightarrow> failed)"

section \<open>The server\<close>

record server =
  db :: store
  hits :: rate_hits

text \<open>
  The routes with their chains of middleware (lines 943, 986, 1012-1016, 1077, 1138).
  A file that reaches the size limit of line 803, or a file in a field other than
  \<^verbatim>\<open>image\<close>, makes the upload middleware raise an error, which the error handler of
  lines 1168-1174 answers.
\<close>

definition routeRequest ::
  "builtins \<Rightarrow> environment \<Rightarrow> request \<Rightarrow> server \<Rightarrow> response \<times> server" where
  "routeRequest b env req s =
     (case route req of
        GetHealth \<Rightarrow> (\<lparr>status = 200, body = HealthBody (now env) (dbConnected env)\<rparr>, s)
      | PostAdminUsers \<Rightarrow>
          (case authenticateUser env (db s) req of
             Inl r \<Rightarrow> (r, s)
           | Inr u \<Rightarrow>
               (case requireAdmin env (db s) u of
                  Inl r \<Rightarrow> (r, s)
                | Inr ok \<Rightarrow> (case createUser env req (db s) of (r, st') \<Rightarrow> (r, s\<lparr>db := st'\<rparr>))))
      | GetAdminUsers \<Rightarrow>
          (case authenticateUser env (db s) req of
             Inl r \<Rightarrow> (r, s)
           | Inr u \<Rightarrow>
               (case requireAdmin env (db s) u of
                  Inl r \<Rightarrow> (r, s)
                | Inr ok \<Rightarrow> (listUsers env (db s), s)))
      | PostProcessImage \<Rightarrow>
          (case authenticateUser env (db s) req of
             Inl r \<Rightarrow> (r, s)
           | Inr u \<Rightarrow>
               (case createUserRateLimiter env u (hits s) of
                  (Inl r, h') \<Rightarrow> (r, s\<lparr>hits := h'\<rparr>)
                | (Inr reqRateLimit, h') \<Rightarrow>
                    if unexpectedFile req
                       \<or> (case imageSize req of None \<Rightarrow> False | Some sz \<Rightarrow> 5 * 1024 * 1024 \<le> sz)
                    then (\<lparr>status = 500, body = UnexpectedErrorBody\<rparr>, s\<lparr>hits := h'\<rparr>)
                    else (case processImageHandler b env u reqRateLimit req (db s) of
                            (r, st') \<Rightarrow> (r, \<lparr>db = st', hits = h'\<rparr>))))
      | GetLogs \<Rightarrow>
          (case authenticateUser env (db s) req of
             Inl r \<Rightarrow> (r, s)
           | Inr u \<Rightarrow> (getLogs b env u req (db s), s)))"

text \<open>
  Before any route, \<^verbatim>\<open>app.use(express.json())\<close> (line 653) parses the body. A body it
  refuses is an error that skips the routes and reaches the error handler of lines
  1168-1174.
\<close>

definition handleRequest ::
  "builtins \<Rightarrow> environment \<Rightarrow> request \<Rightarrow> server \<Rightarrow> response \<times> server" where
  "handleRequest b env req s =
     (if malformedBody req then (\<lparr>status = 500, body = UnexpectedErrorBody\<rparr>, s)
      else routeRequest b env req s)"

text \<open>
  Every body is sent through \<^verbatim>\<open>res.send\<close>, which the middleware of lines 744-766 has
  wrapped. The wrapper tests \<^verbatim>\<open>this.rateLimit\<close>, a property of \<^verbatim>\<open>res\<close>; no line of the source
  assigns it (the handler reads the limiter's record from \<^verbatim>\<open>req.rateLimit\<close>, line 1066),
  so it is \<^verbatim>\<open>undefined\<close> at every send. \<open>hs\<close> are the headers written before the send,
  by the framework and by the rate limiter package; the result has the headers sent.
\<close>

definition serve ::
  "builtins \<Rightarrow> environment \<Rightarrow> (string \<rightharpoonup> header_value) \<Rightarrow> request \<Rightarrow> server
     \<Rightarrow> ((string \<rightharpoonup> header_value) \<times> response) \<times> server" where
  "serve b env hs req s =
     (case handleRequest b env req s of
        (r, s') \<Rightarrow> ((setRateLimitHeaders env None hs, r), s'))"

section \<open>Concrete inputs\<close>

text \<open>
  Inputs at which the theorems below are evaluated: the built-in functions on the few
  arguments that occur, two texts read from an image, three answers of the model, and
  a store with an administrator and two users.
\<close>

definition example_parseFloat :: "string \<Rightarrow> jsnum" where
  "example_parseFloat s =
     (if s = ''250000.00'' then Fin 250000
      else if s = ''25000'' then Fin 25000
      else if s = ''2500.00'' then Fin 2500
      else NaN)"

definition example_toFixed2 :: "jsnum \<Rightarrow> string" where
  "example_toFixed2 n =
     (if n = Fin 250000 then ''250000.00''
      else if n = Fin 25000 then ''25000.00''
      else if n = Fin 2500 then ''2500.00''
      else ''NaN'')"

definition answer_other :: string where
  \<open>answer_other =
     ''{"date": "12 Jun 2024", "utr": "123456789012", "amount_in_inr": "2500.00", "is_edited": false}''\<close>

definition answer_other_object :: jsobject where
  "answer_other_object =
     Map.empty(''date'' \<mapsto> JStr ''12 Jun 2024'', ''utr'' \<mapsto> JStr ''123456789012'',
               ''amount_in_inr'' \<mapsto> JStr ''2500.00'', ''is_edited'' \<mapsto> JBool False)"

definition answer_short :: string where
  \<open>answer_short =
     ''{"date": "12 Jun 2024", "utr": "41234567890", "amount_in_inr": "2,50,000.00", "is_edited": false}''\<close>

definition answer_short_object :: jsobject where
  "answer_short_object =
     Map.empty(''date'' \<mapsto> JStr ''12 Jun 2024'', ''utr'' \<mapsto> JStr ''41234567890'',
               ''amount_in_inr'' \<mapsto> JStr ''2,50,000.00'', ''is_edited'' \<mapsto> JBool False)"

definition answer_empty :: string where
  \<open>answer_empty =
     ''{"date": "12 Jun 2024", "utr": "", "amount_in_inr": "2500.00", "is_edited": false}''\<close>

definition answer_empty_object :: jsobject where
  "answer_empty_object =
     Map.empty(''date'' \<mapsto> JStr ''12 Jun 2024'', ''utr'' \<mapsto> JStr [],
               ''amount_in_inr'' \<mapsto> JStr ''2500.00'', ''is_edited'' \<mapsto> JBool False)"

definition example_JSON_parse :: "string \<Rightarrow> jsobject option" where
  "example_JSON_parse s =
     (if s = answer_other then Some answer_other_object
      else if s = answer_short then Some answer_short_object
      else if s = answer_empty then Some answer_empty_object
      else None)"

definition example_parseInt :: "string \<Rightarrow> int option" where
  "example_parseInt s =
     (if s = ''1'' then Some 1 else if s = ''2'' then Some 2 else if s = ''3'' then Some 3
      else None)"

definition example_parseDate :: "string \<Rightarrow> int option" where
  "example_parseDate s =
     (if s = ''2024-06-10'' then Some 1717977600000
      else if s = ''2024-06-12'' then Some 1718150400000
      else None)"

definition example_numberToString :: "jsnum \<Rightarrow> string" where
  "example_numberToString n = (if n = Fin 2500 then ''2500'' else ''NaN'')"

definition example_builtins :: builtins where
  "example_builtins =
     \<lparr>parseFloat = example_parseFloat, toFixed2 = example_toFixed2,
      JSON_parse = example_JSON_parse, parseInt = example_parseInt,
      parseDate = example_parseDate, numberToString = example_numberToString\<rparr>"

definition text_two_numbers :: string where
  "text_two_numbers =
     ''Paid to Shop Ref 123456789012 UTR 412345678901 Rs 2,50,000.00 on 12 Jun 2024''"

definition text_no_number :: string where
  "text_no_number = ''Paid to Shop Rs 2500.00 on 12 Jun 2024''"

definition replies_other :: model_replies where
  "replies_other =
     \<lparr>rawTextReply = Some text_two_numbers, extractionReply = Some answer_other,
      verificationReply = None\<rparr>"

definition replies_short :: model_replies where
  "replies_short =
     \<lparr>rawTextReply = Some text_two_numbers, extractionReply = Some answer_short,
      verificationReply = Some '' Correct ''\<rparr>"

definition replies_empty :: model_replies where
  "replies_empty =
     \<lparr>rawTextReply = Some text_no_number, extractionReply = Some answer_empty,
      verificationReply = None\<rparr>"

definition admin_user :: user where
  "admin_user =
     \<lparr>user_id = 1, apiKey = ''key_admin'', name = ''Admin'', email = ''admin@example.com'',
      isAdmin = True, requestCount = 0, createdAt = 1717200000000\<rparr>"

definition alice :: user where
  "alice =
     \<lparr>user_id = 2, apiKey = ''key_alice'', name = ''Alice'', email = ''alice@example.com'',
      isAdmin = False, requestCount = 0, createdAt = 1717300000000\<rparr>"

definition bob :: user where
  "bob =
     \<lparr>user_id = 3, apiKey = ''key_bob'', name = ''Bob'', email = ''bob@example.com'',
      isAdmin = False, requestCount = 0, createdAt = 1717400000000\<rparr>"

definition example_log :: "nat \<Rightarrow> int \<Rightarrow> log_entry" where
  "example_log uid t =
     \<lparr>l_userId = uid, l_timestamp = t, l_date = JStr ''12 Jun 2024'',
      l_utr = JStr ''412345678901'', l_amount_in_inr = JStr ''2500.00'',
      l_is_edited = JBool False\<rparr>"

definition example_store :: store where
  "example_store = \<lparr>users = [admin_user, alice, bob], transactions = [], logs = []\<rparr>"

text \<open>
  Three logs of the user with identifier 2, the latest at 2024-06-13T00:00:00.000Z, and
  one log of the user with identifier 3.
\<close>

definition store_with_logs :: store where
  "store_with_logs =
     \<lparr>users = [admin_user, alice, bob], transactions = [],
      logs = [example_log 2 1718000000000, example_log 3 1718100000000,
              example_log 2 1718236800000, example_log 2 1718100000000]\<rparr>"

definition example_env :: "model_replies \<Rightarrow> environment" where
  "example_env m =
     \<lparr>now = 1718200000000, model = m, fails = {}, randomHex = ''00ff'', dbConnected = True\<rparr>"

definition example_request :: "route \<Rightarrow> string option \<Rightarrow> request" where
  "example_request rt k =
     \<lparr>route = rt, xApiKey = k, imageSize = Some 1000, bodyName = Some ''Carol'',
      bodyEmail = Some ''carol@example.com'', queryStartDate = None, queryEndDate = None,
      queryPage = None, queryLimit = None, malformedBody = False, unexpectedFile = False\<rparr>"

definition logs_request :: request where
  "logs_request =
     \<lparr>route = GetLogs, xApiKey = Some ''key_alice'', imageSize = None, bodyName = None,
      bodyEmail = None, queryStartDate = Some ''2024-06-10'', queryEndDate = Some ''2024-06-12'',
      queryPage = Some ''1'', queryLimit = Some ''2'', malformedBody = False, unexpectedFile = False\<rparr>"

text \<open>A request without a key whose JSON body is not well-formed.\<close>

definition broken_request :: request where
  "broken_request =
     \<lparr>route = PostAdminUsers, xApiKey = None, imageSize = None, bodyName = None,
      bodyEmail = None, queryStartDate = None, queryEndDate = None, queryPage = None,
      queryLimit = None, malformedBody = True, unexpectedFile = False\<rparr>"

definition example_server :: server where
  "example_server = \<lparr>db = example_store, hits = Map.empty\<rparr>"

text \<open>
  The user with identifier 2 has twenty requests counted in a window that started ten
  seconds before the time of \<open>example_env\<close>, or in one that started 10000 seconds before.
\<close>

definition server_at_limit :: server where
  "server_at_limit = \<lparr>db = example_store, hits = [2 \<mapsto> (1718199990000, 20)]\<rparr>"

definition server_old_window :: server where
  "server_old_window = \<lparr>db = example_store, hits = [2 \<mapsto> (1718190000000, 20)]\<rparr>"

definition logs_server :: server where
  "logs_server = \<lparr>db = store_with_logs, hits = Map.empty\<rparr>"

text \<open>
  The server after the user alice has submitted one image and eleven days have passed:
  the log of the submission has expired, the count stored with the user has not.
\<close>

definition server_after_expiry :: server where
  "server_after_expiry =
     (let s1 = snd (handleRequest example_builtins (example_env replies_empty)
                      (example_request PostProcessImage (Some ''key_alice'')) example_server)
      in s1\<lparr>db := expireLogs (1718200000000 + 11 * 86400000) (db s1)\<rparr>)"

section \<open>Evaluation at the concrete inputs\<close>

lemma example_builtins_simps:
  "parseFloat example_builtins = example_parseFloat"
  "toFixed2 example_builtins = example_toFixed2"
  "JSON_parse example_builtins = example_JSON_parse"
  "parseInt example_builtins = example_parseInt"
  "parseDate example_builtins = example_parseDate"
  "numberToString example_builtins = example_numberToString"
  by (simp_all add: example_builtins_def)

lemma matches_two_numbers:
  "twelveDigitMatches (trim text_two_numbers) = [''123456789012'', ''412345678901'']"
  by (simp add: text_two_numbers_def trim_def isWhiteSpace_def twelveDigitMatches_def
      isDigit_def isWordChar_def)

lemma matches_no_number: "twelveDigitMatches (trim text_no_number) = []"
  by (simp add: text_no_number_def trim_def isWhiteSpace_def twelveDigitMatches_def
      isDigit_def isWordChar_def)

lemma parse_answer_other:
  "parseExtraction example_builtins answer_other = Some answer_other_object"
  by (simp add: parseExtraction_def jsonMatch_def example_builtins_simps example_JSON_parse_def
      answer_other_def)

lemma parse_answer_short:
  "parseExtraction example_builtins answer_short = Some answer_short_object"
  by (simp add: parseExtraction_def jsonMatch_def example_builtins_simps example_JSON_parse_def
      answer_short_def answer_other_def)

lemma parse_answer_empty:
  "parseExtraction example_builtins answer_empty = Some answer_empty_object"
  by (simp add: parseExtraction_def jsonMatch_def example_builtins_simps example_JSON_parse_def
      answer_short_def answer_other_def answer_empty_def)

lemma lower_reply_correct: "toLowerCase (trim '' Correct '') = ''correct''"
  by code_simp

lemma processImage_try_replies_other:
  "processImage_try example_builtins replies_other =
     (Some answer_other_object, [RawTextCall, ExtractionCall])"
  by (simp add: processImage_try_def replies_other_def matches_two_numbers
      parse_answer_other checkAmount_def answer_other_object_def getProp_def
      example_builtins_simps example_parseFloat_def removeCommas_def selectUtr_def)

lemma processImage_try_replies_short:
  "processImage_try example_builtins replies_short =
     (Some (answer_short_object(''amount_in_inr'' \<mapsto> JStr ''250000.00'',
                                ''utr'' \<mapsto> JStr ''412345678901'',
                                ''utr_alternatives'' \<mapsto> JArr [JStr ''123456789012''])),
      [RawTextCall, ExtractionCall, VerificationCall])"
  by (simp add: processImage_try_def replies_short_def matches_two_numbers
      parse_answer_short checkAmount_def answer_short_object_def getProp_def
      example_builtins_simps example_parseFloat_def example_toFixed2_def removeCommas_def
      selectUtr_def verifyAmount_def lower_reply_correct startsWith_def)

lemma processImage_try_replies_empty:
  "processImage_try example_builtins replies_empty =
     (Some answer_empty_object, [RawTextCall, ExtractionCall])"
  by (simp add: processImage_try_def replies_empty_def matches_no_number
      parse_answer_empty checkAmount_def answer_empty_object_def getProp_def
      example_builtins_simps example_parseFloat_def removeCommas_def selectUtr_def)

lemma processImage_replies_other:
  "processImage example_builtins replies_other =
     (answer_other_object, [RawTextCall, ExtractionCall])"
  by (simp add: processImage_def processImage_try_replies_other)

lemma processImage_replies_short:
  "processImage example_builtins replies_short =
     (answer_short_object(''amount_in_inr'' \<mapsto> JStr ''250000.00'',
                          ''utr'' \<mapsto> JStr ''412345678901'',
                          ''utr_alternatives'' \<mapsto> JArr [JStr ''123456789012'']),
      [RawTextCall, ExtractionCall, VerificationCall])"
  by (simp add: processImage_def processImage_try_replies_short)

lemma processImage_replies_empty:
  "processImage example_builtins replies_empty =
     (answer_empty_object, [RawTextCall, ExtractionCall])"
  by (simp add: processImage_def processImage_try_replies_empty)

lemma example_request_simps:
  "route (example_request rt k) = rt"
  "xApiKey (example_request rt k) = k"
  "imageSize (example_request rt k) = Some 1000"
  "malformedBody (example_request rt k) = False"
  "unexpectedFile (example_request rt k) = False"
  by (simp_all add: example_request_def)

lemma example_env_simps:
  "now (example_env m) = 1718200000000"
  "model (example_env m) = m"
  "fails (example_env m) = {}"
  by (simp_all add: example_env_def)

lemma auth_example:
  "authenticateUser (example_env m) example_store (example_request rt (Some ''key_admin''))
     = Inr admin_user"
  "authenticateUser (example_env m) example_store (example_request rt (Some ''key_alice''))
     = Inr alice"
  "authenticateUser (example_env m) example_store (example_request rt (Some ''key_bob''))
     = Inr bob"
  by (simp_all add: authenticateUser_def example_env_def example_store_def example_request_def
      admin_user_def alice_def bob_def)

lemma ids_example: "distinct (map user_id (users example_store))"
  by (simp add: example_store_def admin_user_def alice_def bob_def)

lemma normalizeUtr_answer_empty: "normalizeUtr answer_empty_object = answer_empty_object"
  by (simp add: normalizeUtr_def answer_empty_object_def getProp_def)

lemma handleRequest_process:
  assumes "\<not> malformedBody req" and "route req = PostProcessImage"
    and "authenticateUser env (db s) req = Inr u"
    and "createUserRateLimiter env u (hits s) = (Inr rl, h')"
    and "\<not> unexpectedFile req" and "imageSize req = Some sz" and "sz < 5 * 1024 * 1024"
    and "processImageHandler b env u rl req (db s) = (r, st')"
  shows "handleRequest b env req s = (r, \<lparr>db = st', hits = h'\<rparr>)"
  using assms by (simp add: handleRequest_def routeRequest_def)

lemma handleRequest_empty_utr:
  "handleRequest example_builtins (example_env replies_empty)
     (example_request PostProcessImage (Some ''key_alice'')) example_server =
   (\<lparr>status = 200, body = ImageProcessedBody answer_empty_object 19 1718200060000\<rparr>,
    \<lparr>db = \<lparr>users = [admin_user, alice\<lparr>requestCount := 1\<rparr>, bob],
            transactions = [\<lparr>t_userId = 2, t_date = JStr ''12 Jun 2024'', t_utr = JStr [],
                             t_amount_in_inr = JStr ''2500.00'', t_createdAt = 1718200000000\<rparr>],
            logs = [\<lparr>l_userId = 2, l_timestamp = 1718200000000, l_date = JStr ''12 Jun 2024'',
                     l_utr = JStr ''N/A'', l_amount_in_inr = JStr ''2500.00'',
                     l_is_edited = JBool False\<rparr>]\<rparr>,
     hits = [2 \<mapsto> (1718200000000, 1)]\<rparr>)"
proof -
  have lim: "createUserRateLimiter (example_env replies_empty) alice Map.empty
               = (Inr (Some 19), [2 \<mapsto> (1718200000000, 1)])"
    by (simp add: createUserRateLimiter_def countHit_def alice_def example_env_def maxRequests_def)
  have h: "processImageHandler example_builtins (example_env replies_empty) alice (Some 19)
             (example_request PostProcessImage (Some ''key_alice'')) example_store =
           (\<lparr>status = 200, body = ImageProcessedBody answer_empty_object 19 1718200060000\<rparr>,
            \<lparr>users = [admin_user, alice\<lparr>requestCount := 1\<rparr>, bob],
            transactions = [\<lparr>t_userId = 2, t_date = JStr ''12 Jun 2024'', t_utr = JStr [],
                             t_amount_in_inr = JStr ''2500.00'', t_createdAt = 1718200000000\<rparr>],
            logs = [\<lparr>l_userId = 2, l_timestamp = 1718200000000, l_date = JStr ''12 Jun 2024'',
                     l_utr = JStr ''N/A'', l_amount_in_inr = JStr ''2500.00'',
                     l_is_edited = JBool False\<rparr>]\<rparr>)"
    apply (simp add: processImageHandler_def example_request_simps example_env_simps
        processImage_replies_empty normalizeUtr_answer_empty)
    apply (simp add: answer_empty_object_def getProp_def newTransaction_def newLog_def js_or_def
        example_store_def alice_def admin_user_def bob_def example_env_simps)
    done
  show ?thesis
    by (rule handleRequest_process[where u = alice and rl = "Some 19" and sz = 1000])
      (simp_all add: example_request_simps example_server_def auth_example lim h)
qed

section \<open>The choice of the UTR\<close>

lemma scanTwelveDigit_elems:
  "x \<in> set (scanTwelveDigit p s) \<Longrightarrow> length x = 12 \<and> list_all isDigit x"
  by (induction p s rule: scanTwelveDigit.induct) (auto split: if_splits)

lemma twelveDigitMatches_elems:
  "x \<in> set (twelveDigitMatches s) \<Longrightarrow> length x = 12 \<and> list_all isDigit x"
  unfolding twelveDigitMatches_def by (rule scanTwelveDigit_elems)

lemma getProp_upd: "getProp (d(k \<mapsto> v)) k' = (if k' = k then v else getProp d k')"
  by (simp add: getProp_def)

lemma verifyAmount_other:
  "k \<noteq> ''amount_in_inr'' \<Longrightarrow> getProp (verifyAmount b a v d) k = getProp d k"
  by (simp add: verifyAmount_def Let_def getProp_upd)

lemma checkAmount_other:
  "checkAmount b m e = (Some d, cs) \<Longrightarrow> k \<noteq> ''amount_in_inr'' \<Longrightarrow> getProp d k = getProp e k"
  by (auto simp: checkAmount_def Let_def verifyAmount_other
      split: if_splits jsval.splits option.splits)

lemma selectUtr_other:
  "k \<noteq> ''utr'' \<Longrightarrow> k \<noteq> ''utr_alternatives'' \<Longrightarrow> getProp (selectUtr ms d) k = getProp d k"
  by (simp add: selectUtr_def Let_def getProp_upd split: list.splits)

lemma selectUtr_two:
  assumes "length x = 12" "length y = 12" "startsWith x ''4'' \<noteq> startsWith y ''4''"
  shows "getProp (selectUtr [x, y] d) ''utr'' =
           (if array_includes [x, y] (getProp d ''utr'') then getProp d ''utr''
            else JStr (if startsWith x ''4'' then x else y))"
proof (cases "getProp d ''utr''")
  case (JStr s)
  with assms show ?thesis
    by (auto simp: selectUtr_def Let_def getProp_upd)
qed (use assms in \<open>auto simp: selectUtr_def Let_def getProp_upd\<close>)

text \<open>
  C1, as the code has it. Let the text read from the image hold exactly two matches of
  the twelve-digit pattern, exactly one of them starting with 4, and let processImage
  finish without an exception. When the UTR of the model's structured answer is one of
  the two matches, it is the UTR of the result, also when it is the match that does not
  start with 4. In every other case (the answer has no UTR, or one that is not among
  the matches) the UTR of the result is the match starting with 4.
\<close>

theorem processImage_utr_selection:
  assumes raw: "rawTextReply m = Some r"
    and two: "twelveDigitMatches (trim r) = [x, y]"
    and one4: "startsWith x ''4'' \<noteq> startsWith y ''4''"
    and ext: "extractionReply m = Some t"
    and parsed: "parseExtraction b t = Some e"
    and completes: "fst (processImage_try b m) \<noteq> None"
  shows "getProp (fst (processImage b m)) ''utr'' =
           (if array_includes [x, y] (getProp e ''utr'') then getProp e ''utr''
            else JStr (if startsWith x ''4'' then x else y))"
proof -
  have len: "length x = 12" "length y = 12"
    using twelveDigitMatches_elems[of x "trim r"] twelveDigitMatches_elems[of y "trim r"] two
    by simp_all
  obtain d cs where chk: "checkAmount b m e = (Some d, cs)"
    using completes raw ext parsed
    by (cases "checkAmount b m e") (auto simp: processImage_try_def Let_def split: option.splits)
  have utr: "getProp d ''utr'' = getProp e ''utr''"
    using checkAmount_other[OF chk] by simp
  have "fst (processImage b m) = selectUtr [x, y] d"
    using raw ext parsed chk two by (simp add: processImage_def processImage_try_def Let_def)
  then show ?thesis
    using selectUtr_two[OF len one4, of d] utr by simp
qed

text \<open>
  The theorem at a text with the matches 123456789012 and 412345678901 and an answer
  whose UTR has eleven digits: the result has the match starting with 4.
\<close>

theorem processImage_utr_selection_witness:
  "twelveDigitMatches (trim text_two_numbers) = [''123456789012'', ''412345678901'']
   \<and> fst (processImage_try example_builtins replies_short) \<noteq> None
   \<and> getProp answer_short_object ''utr'' = JStr ''41234567890''
   \<and> getProp (fst (processImage example_builtins replies_short)) ''utr'' = JStr ''412345678901''"
proof -
  have raw: "rawTextReply replies_short = Some text_two_numbers"
    and ext: "extractionReply replies_short = Some answer_short"
    by (simp_all add: replies_short_def)
  have one4: "startsWith ''123456789012'' ''4'' \<noteq> startsWith ''412345678901'' ''4''"
    by (simp add: startsWith_def)
  have completes: "fst (processImage_try example_builtins replies_short) \<noteq> None"
    by (simp add: processImage_try_replies_short)
  have utr: "getProp answer_short_object ''utr'' = JStr ''41234567890''"
    by (simp add: answer_short_object_def getProp_def)
  from processImage_utr_selection[OF raw matches_two_numbers one4 ext parse_answer_short completes]
  have "getProp (fst (processImage example_builtins replies_short)) ''utr'' = JStr ''412345678901''"
    by (simp add: utr startsWith_def)
  with matches_two_numbers completes utr show ?thesis by simp
qed

text \<open>
  C1 as the specification states it fails: on the same text, an answer that proposes
  123456789012 keeps it, although 412345678901 is the match that starts with 4.
\<close>

theorem processImage_utr_not_always_4:
  "rawTextReply replies_other = Some text_two_numbers
   \<and> twelveDigitMatches (trim text_two_numbers) = [''123456789012'', ''412345678901'']
   \<and> getProp (fst (processImage example_builtins replies_other)) ''utr'' = JStr ''123456789012''"
proof -
  have "rawTextReply replies_other = Some text_two_numbers"
    by (simp add: replies_other_def)
  moreover have "getProp answer_other_object ''utr'' = JStr ''123456789012''"
    by (simp add: answer_other_object_def getProp_def)
  ultimately show ?thesis
    by (simp add: matches_two_numbers processImage_replies_other)
qed

section \<open>The verification of a large amount\<close>

text \<open>
  C5. Let the model's structured answer carry a non-empty string as amount, and let
  \<open>amount\<close> be what parseFloat makes of it without its commas. When \<open>amount\<close> does not
  exceed 100000, the calls made are the two extraction calls and the amount of the
  result is the string unchanged. When it does, there is exactly one verification call
  after them; if the call returns, a reply that is "correct" or "not found" (trimmed,
  in any case of letters) sets the amount to \<open>amount\<close> written with two decimals, a
  reply that parseFloat reads as a number sets it to that number written with two
  decimals, and any other reply leaves the string unchanged.
\<close>

theorem amount_verification:
  assumes raw: "rawTextReply m = Some r"
    and ext: "extractionReply m = Some t"
    and parsed: "parseExtraction b t = Some e"
    and amt: "getProp e ''amount_in_inr'' = JStr s"
    and nonempty: "s \<noteq> []"
  shows "(\<not> gt_threshold (parseFloat b (removeCommas s)) \<longrightarrow>
            snd (processImage b m) = [RawTextCall, ExtractionCall]
            \<and> getProp (fst (processImage b m)) ''amount_in_inr'' = JStr s)
       \<and> (gt_threshold (parseFloat b (removeCommas s)) \<longrightarrow>
            snd (processImage b m) = [RawTextCall, ExtractionCall, VerificationCall]
            \<and> (\<forall>v. verificationReply m = Some v \<longrightarrow>
                 getProp (fst (processImage b m)) ''amount_in_inr'' =
                   (if toLowerCase (trim v) = ''correct'' \<or> toLowerCase (trim v) = ''not found''
                    then JStr (toFixed2 b (parseFloat b (removeCommas s)))
                    else if parseFloat b (trim v) \<noteq> NaN
                    then JStr (toFixed2 b (parseFloat b (trim v)))
                    else JStr s)))"
proof (intro conjI impI allI)
  assume small: "\<not> gt_threshold (parseFloat b (removeCommas s))"
  then have chk: "checkAmount b m e = (Some e, [])"
    using amt nonempty by (simp add: checkAmount_def Let_def)
  show "snd (processImage b m) = [RawTextCall, ExtractionCall]"
    using raw ext parsed chk by (simp add: processImage_def processImage_try_def Let_def)
  show "getProp (fst (processImage b m)) ''amount_in_inr'' = JStr s"
    using raw ext parsed chk amt
    by (simp add: processImage_def processImage_try_def Let_def selectUtr_other)
next
  assume large: "gt_threshold (parseFloat b (removeCommas s))"
  then have chk: "checkAmount b m e =
      (case verificationReply m of
         None \<Rightarrow> (None, [VerificationCall])
       | Some v \<Rightarrow> (Some (verifyAmount b (parseFloat b (removeCommas s)) v e), [VerificationCall]))"
    using amt nonempty by (simp add: checkAmount_def Let_def)
  show "snd (processImage b m) = [RawTextCall, ExtractionCall, VerificationCall]"
    using raw ext parsed chk
    by (simp add: processImage_def processImage_try_def Let_def split: option.splits)
  fix v
  assume reply: "verificationReply m = Some v"
  have notNaN: "parseFloat b (removeCommas s) \<noteq> NaN"
    using large by (cases "parseFloat b (removeCommas s)") simp_all
  have "fst (processImage b m) =
          selectUtr (twelveDigitMatches (trim r)) (verifyAmount b (parseFloat b (removeCommas s)) v e)"
    using raw ext parsed chk reply by (simp add: processImage_def processImage_try_def Let_def)
  then show "getProp (fst (processImage b m)) ''amount_in_inr'' =
      (if toLowerCase (trim v) = ''correct'' \<or> toLowerCase (trim v) = ''not found''
       then JStr (toFixed2 b (parseFloat b (removeCommas s)))
       else if parseFloat b (trim v) \<noteq> NaN
       then JStr (toFixed2 b (parseFloat b (trim v)))
       else JStr s)"
    using notNaN amt by (simp add: selectUtr_other verifyAmount_def Let_def getProp_upd)
qed

text \<open>
  The theorem at an amount of 2,50,000.00 with the reply "Correct" (one verification
  call, the amount becomes 250000.00), and at an amount of 2500.00 (no verification
  call, the amount stays).
\<close>

theorem amount_verification_witness:
  "gt_threshold (parseFloat example_builtins (removeCommas ''2,50,000.00''))
   \<and> snd (processImage example_builtins replies_short)
       = [RawTextCall, ExtractionCall, VerificationCall]
   \<and> getProp (fst (processImage example_builtins replies_short)) ''amount_in_inr''
       = JStr ''250000.00''
   \<and> \<not> gt_threshold (parseFloat example_builtins (removeCommas ''2500.00''))
   \<and> snd (processImage example_builtins replies_other) = [RawTextCall, ExtractionCall]
   \<and> getProp (fst (processImage example_builtins replies_other)) ''amount_in_inr''
       = JStr ''2500.00''"
proof -
  have large: "gt_threshold (parseFloat example_builtins (removeCommas ''2,50,000.00''))"
    and small: "\<not> gt_threshold (parseFloat example_builtins (removeCommas ''2500.00''))"
    and value_large: "parseFloat example_builtins (removeCommas ''2,50,000.00'') = Fin 250000"
    and fixed: "toFixed2 example_builtins (Fin 250000) = ''250000.00''"
    by (simp_all add: example_builtins_simps example_parseFloat_def example_toFixed2_def
        removeCommas_def)
  have raw_s: "rawTextReply replies_short = Some text_two_numbers"
    and ext_s: "extractionReply replies_short = Some answer_short"
    and reply_s: "verificationReply replies_short = Some '' Correct ''"
    by (simp_all add: replies_short_def)
  have amt_s: "getProp answer_short_object ''amount_in_inr'' = JStr ''2,50,000.00''"
    by (simp add: answer_short_object_def getProp_def)
  have raw_o: "rawTextReply replies_other = Some text_two_numbers"
    and ext_o: "extractionReply replies_other = Some answer_other"
    by (simp_all add: replies_other_def)
  have amt_o: "getProp answer_other_object ''amount_in_inr'' = JStr ''2500.00''"
    by (simp add: answer_other_object_def getProp_def)
  from amount_verification[OF raw_s ext_s parse_answer_short amt_s] large reply_s
  have first: "snd (processImage example_builtins replies_short)
                 = [RawTextCall, ExtractionCall, VerificationCall]
               \<and> getProp (fst (processImage example_builtins replies_short)) ''amount_in_inr''
                 = JStr ''250000.00''"
    by (simp add: lower_reply_correct value_large fixed)
  from amount_verification[OF raw_o ext_o parse_answer_other amt_o] small
  have second: "snd (processImage example_builtins replies_other) = [RawTextCall, ExtractionCall]
               \<and> getProp (fst (processImage example_builtins replies_other)) ''amount_in_inr''
                 = JStr ''2500.00''"
    by simp
  from large small first second show ?thesis by simp
qed

section \<open>Authentication\<close>

lemma authenticateUser_missing:
  "xApiKey req = None \<or> xApiKey req = Some [] \<Longrightarrow>
   authenticateUser env st req = Inl (errorResponse 401 ''Unauthorized: API key required'')"
  by (auto simp: authenticateUser_def)

lemma authenticateUser_unknown:
  assumes "xApiKey req = Some k" "k \<noteq> []" "k \<notin> apiKey ` set (users st)"
    "FindUserByKey \<notin> fails env"
  shows "authenticateUser env st req = Inl (errorResponse 401 ''Unauthorized: Invalid API key'')"
proof -
  have "find (\<lambda>u. apiKey u = k) (users st) = None"
    using assms(3) by (auto simp: find_None_iff)
  with assms show ?thesis by (simp add: authenticateUser_def)
qed

lemma handleRequest_not_authenticated:
  assumes "\<not> malformedBody req" "route req \<noteq> GetHealth"
    "authenticateUser env (db s) req = Inl r"
  shows "handleRequest b env req s = (r, s)"
  using assms by (cases "route req") (simp_all add: handleRequest_def routeRequest_def)

lemma authenticateUser_Inr:
  "authenticateUser env st req = Inr u \<Longrightarrow> u \<in> set (users st) \<and> xApiKey req = Some (apiKey u)"
  by (auto simp: authenticateUser_def find_Some_iff split: option.splits if_splits)

lemma find_by_id:
  "distinct (map user_id us) \<Longrightarrow> u \<in> set us \<Longrightarrow> find (\<lambda>x. user_id x = user_id u) us = Some u"
  by (induction us) (auto simp: image_iff)

text \<open>
  C6, as the code has it. A request to an endpoint other than the health check whose
  body the JSON parser accepts and whose X-API-Key header is missing or empty, or names
  no stored user while the lookup itself does not fail, is answered with status 401 and
  an error body, whatever else the request carries, and leaves the state of the server
  (users, transactions, logs, counters) as it was.
\<close>

theorem invalid_key_unauthorized:
  assumes accepted: "\<not> malformedBody req"
    and endpoint: "route req \<noteq> GetHealth"
    and key: "xApiKey req = None \<or> xApiKey req = Some []
              \<or> (\<exists>k. xApiKey req = Some k \<and> k \<notin> apiKey ` set (users (db s))
                       \<and> FindUserByKey \<notin> fails env)"
  shows "\<exists>msg. handleRequest b env req s = (\<lparr>status = 401, body = ErrorBody (JStr msg)\<rparr>, s)"
proof -
  have "\<exists>msg. authenticateUser env (db s) req = Inl (errorResponse 401 msg)"
  proof -
    consider "xApiKey req = None \<or> xApiKey req = Some []"
      | k where "xApiKey req = Some k" "k \<noteq> []" "k \<notin> apiKey ` set (users (db s))"
          "FindUserByKey \<notin> fails env"
      using key by auto
    then show ?thesis
    proof cases
      case 1
      then show ?thesis using authenticateUser_missing by blast
    next
      case 2
      then show ?thesis using authenticateUser_unknown by blast
    qed
  qed
  then obtain msg where "authenticateUser env (db s) req = Inl (errorResponse 401 msg)" ..
  from handleRequest_not_authenticated[OF accepted endpoint this]
  show ?thesis by (auto simp: errorResponse_def)
qed

text \<open>The theorem at a request for image processing with a key that no user has.\<close>

theorem invalid_key_unauthorized_witness:
  "route (example_request PostProcessImage (Some ''key_mallory'')) \<noteq> GetHealth
   \<and> ''key_mallory'' \<notin> apiKey ` set (users (db example_server))
   \<and> (\<exists>msg. handleRequest example_builtins (example_env replies_other)
                (example_request PostProcessImage (Some ''key_mallory'')) example_server
              = (\<lparr>status = 401, body = ErrorBody (JStr msg)\<rparr>, example_server))"
proof -
  have endpoint: "route (example_request PostProcessImage (Some ''key_mallory'')) \<noteq> GetHealth"
    by (simp add: example_request_simps)
  have unknown: "''key_mallory'' \<notin> apiKey ` set (users (db example_server))"
    by (simp add: example_server_def example_store_def admin_user_def alice_def bob_def)
  have key: "xApiKey (example_request PostProcessImage (Some ''key_mallory'')) = None
             \<or> xApiKey (example_request PostProcessImage (Some ''key_mallory'')) = Some []
             \<or> (\<exists>k. xApiKey (example_request PostProcessImage (Some ''key_mallory'')) = Some k
                     \<and> k \<notin> apiKey ` set (users (db example_server))
                     \<and> FindUserByKey \<notin> fails (example_env replies_other))"
    using unknown by (simp add: example_request_simps example_env_simps)
  have accepted: "\<not> malformedBody (example_request PostProcessImage (Some ''key_mallory''))"
    by (simp add: example_request_simps)
  from invalid_key_unauthorized[OF accepted endpoint key] endpoint unknown
  show ?thesis by simp
qed

text \<open>
  C6 as the specification states it, for every payload, fails: the JSON parser runs
  before the authentication, so a request without a key whose JSON body is not
  well-formed is answered by the error handler with status 500.
\<close>

theorem malformed_body_without_key:
  "route broken_request \<noteq> GetHealth
   \<and> xApiKey broken_request = None
   \<and> handleRequest example_builtins (example_env replies_other) broken_request example_server
       = (\<lparr>status = 500, body = UnexpectedErrorBody\<rparr>, example_server)"
  by (simp add: broken_request_def handleRequest_def)

section \<open>The administrator check\<close>

text \<open>
  C7. With identifiers unique in the store and the lookup by identifier not failing, a
  request to POST or GET /api/admin/users that reaches the routes and is authenticated
  as a user whose admin flag is not set is answered with status 403 and an error body,
  and the state of the server is unchanged: no user is created.
\<close>

theorem non_admin_forbidden:
  assumes accepted: "\<not> malformedBody req"
    and endpoint: "route req = PostAdminUsers \<or> route req = GetAdminUsers"
    and auth: "authenticateUser env (db s) req = Inr u"
    and nonadmin: "\<not> isAdmin u"
    and ids: "distinct (map user_id (users (db s)))"
    and lookup: "FindUserById \<notin> fails env"
  shows "handleRequest b env req s = (\<lparr>status = 403, body = ErrorBody (JStr ''Forbidden: Admin access required'')\<rparr>, s)"
proof -
  have "find (\<lambda>x. user_id x = user_id u) (users (db s)) = Some u"
    using find_by_id[OF ids] authenticateUser_Inr[OF auth] by simp
  then have "requireAdmin env (db s) u = Inl (errorResponse 403 ''Forbidden: Admin access required'')"
    using nonadmin lookup by (simp add: requireAdmin_def)
  then show ?thesis
    using accepted endpoint auth
    by (auto simp: handleRequest_def routeRequest_def errorResponse_def)
qed

text \<open>The theorem at a request of the user bob to create a user.\<close>

theorem non_admin_forbidden_witness:
  "authenticateUser (example_env replies_other) (db example_server)
     (example_request PostAdminUsers (Some ''key_bob'')) = Inr bob
   \<and> \<not> isAdmin bob
   \<and> handleRequest example_builtins (example_env replies_other)
        (example_request PostAdminUsers (Some ''key_bob'')) example_server
      = (\<lparr>status = 403, body = ErrorBody (JStr ''Forbidden: Admin access required'')\<rparr>,
         example_server)"
proof -
  have endpoint: "route (example_request PostAdminUsers (Some ''key_bob'')) = PostAdminUsers
                  \<or> route (example_request PostAdminUsers (Some ''key_bob'')) = GetAdminUsers"
    by (simp add: example_request_simps)
  have auth: "authenticateUser (example_env replies_other) (db example_server)
                (example_request PostAdminUsers (Some ''key_bob'')) = Inr bob"
    by (simp add: example_server_def auth_example)
  have nonadmin: "\<not> isAdmin bob"
    by (simp add: bob_def)
  have ids: "distinct (map user_id (users (db example_server)))"
    by (simp add: example_server_def ids_example)
  have lookup: "FindUserById \<notin> fails (example_env replies_other)"
    by (simp add: example_env_simps)
  have accepted: "\<not> malformedBody (example_request PostAdminUsers (Some ''key_bob''))"
    by (simp add: example_request_simps)
  from non_admin_forbidden[OF accepted endpoint auth nonadmin ids lookup] auth nonadmin
  show ?thesis by simp
qed

section \<open>The rate limiter and its headers\<close>

lemma processImageHandler_status:
  "status (fst (processImageHandler b env u rl req st)) \<in> {200, 400, 500}"
  by (simp add: processImageHandler_def Let_def errorResponse_def split: option.splits)

lemma handleRequest_limited:
  assumes "\<not> malformedBody req"
    "route req = PostProcessImage" "authenticateUser env (db s) req = Inr u"
    "createUserRateLimiter env u (hits s) = (Inl r, h')"
  shows "handleRequest b env req s = (r, s\<lparr>hits := h'\<rparr>)"
  using assms by (simp add: handleRequest_def routeRequest_def)

lemma handleRequest_passed:
  assumes "\<not> malformedBody req"
    "route req = PostProcessImage" "authenticateUser env (db s) req = Inr u"
    "createUserRateLimiter env u (hits s) = (Inr rl, h')"
  shows "status (fst (handleRequest b env req s)) \<noteq> 429 \<and> hits (snd (handleRequest b env req s)) = h'"
proof -
  have "status (fst (processImageHandler b env u rl req (db s))) \<noteq> 429"
    using processImageHandler_status[of b env u rl req "db s"] by auto
  then show ?thesis
    using assms by (auto simp: handleRequest_def routeRequest_def split: prod.splits option.splits)
qed

text \<open>
  C4, on the counter modelled from the specification. For a request to
  POST /api/process-image that reaches the routes and is authenticated: an administrator is never answered 429 and is not counted.
  For any other user the request is counted; while fewer than 20 requests are counted
  in the running window it is let through; once 20 are counted, every further request
  before the window ends (60000 ms after its start) is answered 429 with the reset time
  one minute ahead, and is counted too, so the next one meets the same answer; a request
  after the window has ended starts a new window and is let through.
\<close>

theorem rate_limit_window:
  assumes accepted: "\<not> malformedBody req"
    and endpoint: "route req = PostProcessImage"
    and auth: "authenticateUser env (db s) req = Inr u"
  shows "(isAdmin u \<longrightarrow>
            status (fst (handleRequest b env req s)) \<noteq> 429
            \<and> hits (snd (handleRequest b env req s)) = hits s)
       \<and> (\<not> isAdmin u \<longrightarrow>
            (hits s (user_id u) = None \<longrightarrow>
               status (fst (handleRequest b env req s)) \<noteq> 429
               \<and> hits (snd (handleRequest b env req s)) (user_id u) = Some (now env, 1))
            \<and> (\<forall>start n. hits s (user_id u) = Some (start, n) \<longrightarrow>
                 (now env < start + windowMs \<and> n < maxRequests \<longrightarrow>
                    status (fst (handleRequest b env req s)) \<noteq> 429
                    \<and> hits (snd (handleRequest b env req s)) (user_id u) = Some (start, n + 1))
                 \<and> (now env < start + windowMs \<and> maxRequests \<le> n \<longrightarrow>
                    fst (handleRequest b env req s) =
                      \<lparr>status = 429,
                       body = TooManyRequestsBody
                                ''Too many requests, please try again in a minute.'' 0
                                (now env + 60000)\<rparr>
                    \<and> hits (snd (handleRequest b env req s)) (user_id u) = Some (start, n + 1))
                 \<and> (start + windowMs \<le> now env \<longrightarrow>
                    status (fst (handleRequest b env req s)) \<noteq> 429
                    \<and> hits (snd (handleRequest b env req s)) (user_id u) = Some (now env, 1))))
       \<and> maxRequests = 20 \<and> windowMs = 60000"
proof (intro conjI impI allI)
  assume "isAdmin u"
  then have "createUserRateLimiter env u (hits s) = (Inr None, hits s)"
    by (simp add: createUserRateLimiter_def)
  from handleRequest_passed[OF accepted endpoint auth this]
  show "status (fst (handleRequest b env req s)) \<noteq> 429"
    and "hits (snd (handleRequest b env req s)) = hits s" by simp_all
next
  assume "\<not> isAdmin u" "hits s (user_id u) = None"
  then have "createUserRateLimiter env u (hits s)
               = (Inr (Some (maxRequests - 1)), (hits s)(user_id u \<mapsto> (now env, 1)))"
    by (simp add: createUserRateLimiter_def countHit_def maxRequests_def)
  from handleRequest_passed[OF accepted endpoint auth this]
  show "status (fst (handleRequest b env req s)) \<noteq> 429"
    and "hits (snd (handleRequest b env req s)) (user_id u) = Some (now env, 1)" by simp_all
next
  fix start n
  assume "\<not> isAdmin u" "hits s (user_id u) = Some (start, n)"
    "now env < start + windowMs \<and> n < maxRequests"
  then have "createUserRateLimiter env u (hits s)
               = (Inr (Some (maxRequests - (n + 1))), (hits s)(user_id u \<mapsto> (start, n + 1)))"
    by (simp add: createUserRateLimiter_def countHit_def)
  from handleRequest_passed[OF accepted endpoint auth this]
  show "status (fst (handleRequest b env req s)) \<noteq> 429"
    and "hits (snd (handleRequest b env req s)) (user_id u) = Some (start, n + 1)" by simp_all
next
  fix start n
  assume "\<not> isAdmin u" "hits s (user_id u) = Some (start, n)"
    "now env < start + windowMs \<and> maxRequests \<le> n"
  then have "createUserRateLimiter env u (hits s)
               = (Inl \<lparr>status = 429,
                       body = TooManyRequestsBody
                                ''Too many requests, please try again in a minute.'' 0
                                (now env + 60000)\<rparr>, (hits s)(user_id u \<mapsto> (start, n + 1)))"
    by (simp add: createUserRateLimiter_def countHit_def)
  from handleRequest_limited[OF accepted endpoint auth this]
  show "fst (handleRequest b env req s) =
          \<lparr>status = 429,
           body = TooManyRequestsBody
                    ''Too many requests, please try again in a minute.'' 0 (now env + 60000)\<rparr>"
    and "hits (snd (handleRequest b env req s)) (user_id u) = Some (start, n + 1)" by simp_all
next
  fix start n
  assume "\<not> isAdmin u" "hits s (user_id u) = Some (start, n)" "start + windowMs \<le> now env"
  then have "createUserRateLimiter env u (hits s)
               = (Inr (Some (maxRequests - 1)), (hits s)(user_id u \<mapsto> (now env, 1)))"
    by (simp add: createUserRateLimiter_def countHit_def maxRequests_def)
  from handleRequest_passed[OF accepted endpoint auth this]
  show "status (fst (handleRequest b env req s)) \<noteq> 429"
    and "hits (snd (handleRequest b env req s)) (user_id u) = Some (now env, 1)" by simp_all
qed (simp_all add: maxRequests_def windowMs_def)

text \<open>
  The theorem for the user alice with twenty requests counted ten seconds ago (429),
  with twenty requests counted in a window that has ended (let through), and for the
  administrator (let through).
\<close>

theorem rate_limit_window_witness:
  "fst (handleRequest example_builtins (example_env replies_other)
          (example_request PostProcessImage (Some ''key_alice'')) server_at_limit)
     = \<lparr>status = 429,
        body = TooManyRequestsBody ''Too many requests, please try again in a minute.'' 0
                 1718200060000\<rparr>
   \<and> status (fst (handleRequest example_builtins (example_env replies_other)
                    (example_request PostProcessImage (Some ''key_alice'')) server_old_window))
       \<noteq> 429
   \<and> status (fst (handleRequest example_builtins (example_env replies_other)
                    (example_request PostProcessImage (Some ''key_admin'')) server_at_limit))
       \<noteq> 429"
proof -
  have endpoint: "route (example_request PostProcessImage k) = PostProcessImage"
    and accepted: "\<not> malformedBody (example_request PostProcessImage k)" for k
    by (simp_all add: example_request_simps)
  have auth_alice: "authenticateUser (example_env replies_other) (db server_at_limit)
                      (example_request PostProcessImage (Some ''key_alice'')) = Inr alice"
    and auth_old: "authenticateUser (example_env replies_other) (db server_old_window)
                      (example_request PostProcessImage (Some ''key_alice'')) = Inr alice"
    and auth_admin: "authenticateUser (example_env replies_other) (db server_at_limit)
                      (example_request PostProcessImage (Some ''key_admin'')) = Inr admin_user"
    by (simp_all add: server_at_limit_def server_old_window_def auth_example)
  have counted: "hits server_at_limit (user_id alice) = Some (1718199990000, 20)"
    and counted_old: "hits server_old_window (user_id alice) = Some (1718190000000, 20)"
    by (simp_all add: server_at_limit_def server_old_window_def alice_def)
  have flags: "\<not> isAdmin alice" "isAdmin admin_user"
    by (simp_all add: alice_def admin_user_def)
  have inside: "now (example_env replies_other) < 1718199990000 + windowMs \<and> maxRequests \<le> 20"
    and after: "1718190000000 + windowMs \<le> now (example_env replies_other)"
    by (simp_all add: example_env_simps windowMs_def maxRequests_def)
  from rate_limit_window[OF accepted endpoint auth_alice, of example_builtins] flags counted inside
  have first: "fst (handleRequest example_builtins (example_env replies_other)
                      (example_request PostProcessImage (Some ''key_alice'')) server_at_limit)
                 = \<lparr>status = 429,
                    body = TooManyRequestsBody
                             ''Too many requests, please try again in a minute.'' 0
                             1718200060000\<rparr>"
    by (simp add: example_env_simps)
  from rate_limit_window[OF accepted endpoint auth_old, of example_builtins] flags counted_old after
  have second: "status (fst (handleRequest example_builtins (example_env replies_other)
                  (example_request PostProcessImage (Some ''key_alice'')) server_old_window))
                \<noteq> 429"
    by simp
  from rate_limit_window[OF accepted endpoint auth_admin, of example_builtins] flags
  have third: "status (fst (handleRequest example_builtins (example_env replies_other)
                  (example_request PostProcessImage (Some ''key_admin'')) server_at_limit))
                \<noteq> 429"
    by simp
  from first second third show ?thesis by simp
qed

text \<open>
  What the wrapper of \<^verbatim>\<open>res.send\<close> would write if \<^verbatim>\<open>res.rateLimit\<close> were set, and what it
  writes as the server runs: nothing.
\<close>

lemma setRateLimitHeaders_set:
  "setRateLimitHeaders env (Some info) hs ''X-RateLimit-Limit'' = Some (HText ''30'')"
  by (simp add: setRateLimitHeaders_def Let_def)

lemma serve_headers: "fst (fst (serve b env hs req s)) = hs"
  by (simp add: serve_def setRateLimitHeaders_def split: prod.splits)

lemma serve_response: "snd (fst (serve b env hs req s)) = fst (handleRequest b env req s)"
  by (simp add: serve_def split: prod.splits)

lemma handleRequest_at_limit:
  "fst (handleRequest example_builtins (example_env replies_other)
          (example_request PostProcessImage (Some ''key_alice'')) server_at_limit)
     = \<lparr>status = 429,
        body = TooManyRequestsBody ''Too many requests, please try again in a minute.'' 0
                 1718200060000\<rparr>"
proof -
  have "createUserRateLimiter (example_env replies_other) alice (hits server_at_limit)
          = (Inl \<lparr>status = 429,
                  body = TooManyRequestsBody
                           ''Too many requests, please try again in a minute.'' 0
                           1718200060000\<rparr>,
             [2 \<mapsto> (1718199990000, 21)])"
    by (simp add: createUserRateLimiter_def countHit_def server_at_limit_def alice_def
        example_env_simps windowMs_def maxRequests_def)
  from handleRequest_limited[where b = example_builtins
      and req = "example_request PostProcessImage (Some ''key_alice'')", OF _ _ _ this]
  show ?thesis
    by (simp add: example_request_simps server_at_limit_def auth_example)
qed

text \<open>
  C10 does not hold of the code. The wrapper means to write X-RateLimit-Limit 30 when
  rate-limit information exists, but it looks for it in \<^verbatim>\<open>res.rateLimit\<close>, which nothing
  sets, while the information is in \<^verbatim>\<open>req.rateLimit\<close>, where the handler reads it. So the
  header is never written as 30: on the answer 200 to a submission of the user alice
  (19 requests remaining) and on the answer 429 to her at the limit, the header
  X-RateLimit-Limit is what was written before the send, 20 when the limiter package
  wrote its maximum, absent when nothing did.
\<close>

theorem rate_limit_header_not_30:
  "body (snd (fst (serve example_builtins (example_env replies_empty)
                     [''X-RateLimit-Limit'' \<mapsto> HNumber 20]
                     (example_request PostProcessImage (Some ''key_alice'')) example_server)))
     = ImageProcessedBody answer_empty_object 19 1718200060000
   \<and> fst (fst (serve example_builtins (example_env replies_empty)
                  [''X-RateLimit-Limit'' \<mapsto> HNumber 20]
                  (example_request PostProcessImage (Some ''key_alice'')) example_server))
         ''X-RateLimit-Limit'' = Some (HNumber 20)
   \<and> fst (fst (serve example_builtins (example_env replies_empty) Map.empty
                  (example_request PostProcessImage (Some ''key_alice'')) example_server))
         ''X-RateLimit-Limit'' = None
   \<and> snd (fst (serve example_builtins (example_env replies_other)
                  [''X-RateLimit-Limit'' \<mapsto> HNumber 20]
                  (example_request PostProcessImage (Some ''key_alice'')) server_at_limit))
       = \<lparr>status = 429,
          body = TooManyRequestsBody ''Too many requests, please try again in a minute.'' 0
                   1718200060000\<rparr>
   \<and> fst (fst (serve example_builtins (example_env replies_other)
                  [''X-RateLimit-Limit'' \<mapsto> HNumber 20]
                  (example_request PostProcessImage (Some ''key_alice'')) server_at_limit))
         ''X-RateLimit-Limit'' = Some (HNumber 20)
   \<and> maxRequests = 20"
  by (simp add: serve_headers serve_response handleRequest_empty_utr handleRequest_at_limit
      maxRequests_def)

section \<open>What a successful submission stores\<close>

lemma incrementRequestCount_map:
  "distinct (map user_id us) \<Longrightarrow>
   incrementRequestCount uid us =
     map (\<lambda>x. if user_id x = uid then x\<lparr>requestCount := requestCount x + 1\<rparr> else x) us"
proof (induction us)
  case Nil
  then show ?case by simp
next
  case (Cons a us)
  show ?case
  proof (cases "user_id a = uid")
    case True
    then have "\<forall>x \<in> set us. user_id x \<noteq> uid"
      using Cons.prems by (auto simp: image_iff)
    then have "map (\<lambda>x. if user_id x = uid then x\<lparr>requestCount := requestCount x + 1\<rparr> else x) us = us"
      by (simp add: map_idI)
    with True show ?thesis by simp
  next
    case False
    with Cons show ?thesis by simp
  qed
qed

lemma newTransaction_owner: "newTransaction b env u d = Some t \<Longrightarrow> t_userId t = user_id u"
  by (auto simp: newTransaction_def split: option.splits)

lemma newLog_owner: "newLog b env u d = Some l \<Longrightarrow> l_userId l = user_id u"
  by (auto simp: newLog_def split: option.splits)

lemma processImageHandler_ok:
  assumes "status (fst (processImageHandler b env u rl req st)) = 200"
  shows "\<exists>t l. newTransaction b env u (normalizeUtr (fst (processImage b (model env)))) = Some t
           \<and> newLog b env u (normalizeUtr (fst (processImage b (model env)))) = Some l
           \<and> snd (processImageHandler b env u rl req st) =
               st\<lparr>transactions := transactions st @ [t],
                  logs := logs st @ [l],
                  users := incrementRequestCount (user_id u) (users st)\<rparr>"
  using assms
  by (auto simp: processImageHandler_def Let_def errorResponse_def split: option.splits if_splits)

lemma handleRequest_process_ok:
  assumes endpoint: "route req = PostProcessImage"
    and ok: "status (fst (handleRequest b env req s)) = 200"
  shows "\<exists>u rl. authenticateUser env (db s) req = Inr u
           \<and> status (fst (processImageHandler b env u rl req (db s))) = 200
           \<and> db (snd (handleRequest b env req s)) = snd (processImageHandler b env u rl req (db s))"
proof (cases "authenticateUser env (db s) req")
  case (Inl r)
  then have "status r = 200"
    using endpoint ok by (simp add: handleRequest_def routeRequest_def split: if_splits)
  with Inl show ?thesis
    by (auto simp: authenticateUser_def errorResponse_def split: option.splits if_splits)
next
  case (Inr u)
  obtain d h' where lim: "createUserRateLimiter env u (hits s) = (d, h')"
    by (cases "createUserRateLimiter env u (hits s)")
  show ?thesis
  proof (cases d)
    case (Inl r)
    then have "status r = 200"
      using endpoint ok Inr lim by (simp add: handleRequest_def routeRequest_def split: if_splits)
    with Inl lim show ?thesis
      by (auto simp: createUserRateLimiter_def split: if_splits prod.splits)
  next
    case rl: (Inr rl)
    have big: "\<not> (unexpectedFile req
                   \<or> (case imageSize req of None \<Rightarrow> False | Some sz \<Rightarrow> 5 * 1024 * 1024 \<le> sz))"
      using endpoint ok Inr lim rl by (auto simp: handleRequest_def routeRequest_def split: if_splits)
    have "handleRequest b env req s =
            (fst (processImageHandler b env u rl req (db s)),
             \<lparr>db = snd (processImageHandler b env u rl req (db s)), hits = h'\<rparr>)"
      using endpoint ok Inr lim rl big
      by (simp add: handleRequest_def routeRequest_def split: prod.splits if_splits)
    with ok Inr show ?thesis by auto
  qed
qed

text \<open>
  C3. With identifiers unique in the store, a request to POST /api/process-image that is
  answered with status 200 was made by an authenticated caller, and afterwards the
  store holds the transactions it had and one more, owned by the caller, the logs it
  had and one more, owned by the caller, and the users it had, the caller's record
  with \<^verbatim>\<open>requestCount\<close> one greater and nothing else changed.
\<close>

theorem successful_submission_writes:
  assumes endpoint: "route req = PostProcessImage"
    and ok: "status (fst (handleRequest b env req s)) = 200"
    and ids: "distinct (map user_id (users (db s)))"
  shows "\<exists>u t l. authenticateUser env (db s) req = Inr u
           \<and> transactions (db (snd (handleRequest b env req s))) = transactions (db s) @ [t]
           \<and> t_userId t = user_id u
           \<and> logs (db (snd (handleRequest b env req s))) = logs (db s) @ [l]
           \<and> l_userId l = user_id u
           \<and> users (db (snd (handleRequest b env req s))) =
               map (\<lambda>x. if user_id x = user_id u
                         then x\<lparr>requestCount := requestCount x + 1\<rparr> else x) (users (db s))"
proof -
  from handleRequest_process_ok[OF endpoint ok] obtain u rl where
    auth: "authenticateUser env (db s) req = Inr u"
    and h200: "status (fst (processImageHandler b env u rl req (db s))) = 200"
    and dbeq: "db (snd (handleRequest b env req s)) = snd (processImageHandler b env u rl req (db s))"
    by blast
  let ?d = "normalizeUtr (fst (processImage b (model env)))"
  from processImageHandler_ok[OF h200] obtain t l where
    t: "newTransaction b env u ?d = Some t"
    and l: "newLog b env u ?d = Some l"
    and written: "snd (processImageHandler b env u rl req (db s)) =
           (db s)\<lparr>transactions := transactions (db s) @ [t],
                  logs := logs (db s) @ [l],
                  users := incrementRequestCount (user_id u) (users (db s))\<rparr>"
    by blast
  have "transactions (db (snd (handleRequest b env req s))) = transactions (db s) @ [t]"
    and "logs (db (snd (handleRequest b env req s))) = logs (db s) @ [l]"
    and "users (db (snd (handleRequest b env req s)))
           = map (\<lambda>x. if user_id x = user_id u
                       then x\<lparr>requestCount := requestCount x + 1\<rparr> else x) (users (db s))"
    using written dbeq incrementRequestCount_map[OF ids, of "user_id u"] by simp_all
  moreover have "t_userId t = user_id u" and "l_userId l = user_id u"
    using newTransaction_owner[OF t] newLog_owner[OF l] by simp_all
  ultimately show ?thesis using auth by blast
qed

text \<open>The theorem at a submission of the user alice.\<close>

theorem successful_submission_writes_witness:
  "route (example_request PostProcessImage (Some ''key_alice'')) = PostProcessImage
   \<and> status (fst (handleRequest example_builtins (example_env replies_empty)
                    (example_request PostProcessImage (Some ''key_alice'')) example_server)) = 200
   \<and> distinct (map user_id (users (db example_server)))
   \<and> (\<exists>u t l.
         authenticateUser (example_env replies_empty) (db example_server)
           (example_request PostProcessImage (Some ''key_alice'')) = Inr u
         \<and> transactions (db (snd (handleRequest example_builtins (example_env replies_empty)
               (example_request PostProcessImage (Some ''key_alice'')) example_server)))
             = transactions (db example_server) @ [t]
         \<and> t_userId t = user_id u
         \<and> logs (db (snd (handleRequest example_builtins (example_env replies_empty)
               (example_request PostProcessImage (Some ''key_alice'')) example_server)))
             = logs (db example_server) @ [l]
         \<and> l_userId l = user_id u
         \<and> users (db (snd (handleRequest example_builtins (example_env replies_empty)
               (example_request PostProcessImage (Some ''key_alice'')) example_server)))
             = map (\<lambda>x. if user_id x = user_id u
                         then x\<lparr>requestCount := requestCount x + 1\<rparr> else x)
                 (users (db example_server)))"
proof -
  have endpoint: "route (example_request PostProcessImage (Some ''key_alice'')) = PostProcessImage"
    by (simp add: example_request_simps)
  have ok: "status (fst (handleRequest example_builtins (example_env replies_empty)
                      (example_request PostProcessImage (Some ''key_alice'')) example_server)) = 200"
    by (simp add: handleRequest_empty_utr)
  have ids: "distinct (map user_id (users (db example_server)))"
    by (simp add: example_server_def ids_example)
  from successful_submission_writes[OF endpoint ok ids] endpoint ok ids
  show ?thesis by blast
qed

section \<open>The UTR that is stored\<close>

lemma normalizeUtr_string:
  assumes "getProp d ''utr'' = JStr u" "u \<noteq> []" "length u \<noteq> 12"
  shows "getProp (normalizeUtr d) ''utr'' = JStr ''N/A''"
  using assms by (simp add: normalizeUtr_def getProp_upd)

text \<open>
  C2 does not hold of the code. A text without a twelve-digit number and an answer of
  the model whose UTR is the empty string give an extracted UTR of length 0. Line 1031
  tests the UTR for truth before its length, so the empty string is not replaced: the
  Transaction is stored with the empty UTR, while the Log, written with
  \<^verbatim>\<open>extractedData.utr || 'N/A'\<close>, gets the marker.
\<close>

theorem empty_utr_stored_in_transaction:
  "getProp (fst (processImage example_builtins replies_empty)) ''utr'' = JStr []
   \<and> status (fst (handleRequest example_builtins (example_env replies_empty)
                    (example_request PostProcessImage (Some ''key_alice'')) example_server)) = 200
   \<and> map t_utr (transactions (db (snd (handleRequest example_builtins (example_env replies_empty)
                    (example_request PostProcessImage (Some ''key_alice'')) example_server))))
       = [JStr []]
   \<and> map l_utr (logs (db (snd (handleRequest example_builtins (example_env replies_empty)
                    (example_request PostProcessImage (Some ''key_alice'')) example_server))))
       = [JStr ''N/A'']"
proof -
  have "getProp answer_empty_object ''utr'' = JStr []"
    by (simp add: answer_empty_object_def getProp_def)
  then show ?thesis
    by (simp add: processImage_replies_empty handleRequest_empty_utr)
qed

section \<open>The listing of logs\<close>

lemma sorted_newest_first:
  "sorted_wrt (\<lambda>x y. l_timestamp y \<le> l_timestamp x) (sort_key (\<lambda>l. - l_timestamp l) ls)"
proof -
  have "sorted (map (\<lambda>l. - l_timestamp l) (sort_key (\<lambda>l. - l_timestamp l) ls))"
    by (rule sorted_sort_key)
  then show ?thesis by (simp add: sorted_map)
qed

lemma buildLogQuery_Some:
  assumes "dateParam b (queryStartDate req) = map_option Some lo"
    and "dateParam b (queryEndDate req) = map_option Some hi"
  shows "buildLogQuery b u req =
           Some \<lparr>q_userId = user_id u, q_gte = lo, q_lte = map_option nextDay hi\<rparr>"
  using assms by (cases lo; cases hi) (simp_all add: buildLogQuery_def)

lemma matchesQuery_range:
  "matchesQuery \<lparr>q_userId = uid, q_gte = lo, q_lte = map_option nextDay hi\<rparr> l =
     (l_userId l = uid
      \<and> (case lo of None \<Rightarrow> True | Some t \<Rightarrow> t \<le> l_timestamp l)
      \<and> (case hi of None \<Rightarrow> True | Some t \<Rightarrow> l_timestamp l \<le> t + 86400000))"
  by (cases hi) (simp_all add: matchesQuery_def nextDay_def)

lemma handleRequest_logs:
  assumes "\<not> malformedBody req" "route req = GetLogs" "authenticateUser env (db s) req = Inr u"
  shows "handleRequest b env req s = (getLogs b env u req (db s), s)"
  using assms by (simp add: handleRequest_def routeRequest_def)

text \<open>
  C8, as the code has it. Let an authenticated caller ask for page \<open>p\<close> with limit \<open>n\<close>,
  both at least 1, with dates that are absent or valid (\<open>lo\<close> and \<open>hi\<close> are the parsed
  start and end date, when given), and let the database answer. The logs returned are
  logs of the store owned by the caller whose time is at or after the start date and at
  or before one day after the end date; they are the matching logs sorted newest first,
  without the first \<open>(p - 1) * n\<close> of them and cut after \<open>n\<close>. Logs of other users
  never appear.
\<close>

theorem logs_page:
  assumes accepted: "\<not> malformedBody req"
    and endpoint: "route req = GetLogs"
    and auth: "authenticateUser env (db s) req = Inr u"
    and find_ok: "FindLogs \<notin> fails env"
    and count_ok: "CountLogs \<notin> fails env"
    and page: "(case queryPage req of None \<Rightarrow> Some 1 | Some x \<Rightarrow> parseInt b x) = Some p"
    and page_pos: "1 \<le> p"
    and limit: "(case queryLimit req of None \<Rightarrow> Some 10 | Some x \<Rightarrow> parseInt b x) = Some n"
    and limit_pos: "1 \<le> n"
    and lower: "dateParam b (queryStartDate req) = map_option Some lo"
    and upper: "dateParam b (queryEndDate req) = map_option Some hi"
  shows "\<exists>found matching pages.
           fst (handleRequest b env req s) =
             \<lparr>status = 200,
              body = LogsBody (map (formatLog (db s)) found) (length matching)
                       (Fin (of_int p)) pages\<rparr>
           \<and> matching =
               sort_key (\<lambda>l. - l_timestamp l)
                 (filter (\<lambda>l. l_userId l = user_id u
                             \<and> (case lo of None \<Rightarrow> True | Some t \<Rightarrow> t \<le> l_timestamp l)
                             \<and> (case hi of None \<Rightarrow> True
                                 | Some t \<Rightarrow> l_timestamp l \<le> t + 86400000))
                    (logs (db s)))
           \<and> found = take (nat n) (drop (nat ((p - 1) * n)) matching)
           \<and> sorted_wrt (\<lambda>x y. l_timestamp y \<le> l_timestamp x) found
           \<and> length found \<le> nat n
           \<and> (\<forall>l \<in> set found.
                 l \<in> set (logs (db s)) \<and> l_userId l = user_id u
                 \<and> (case lo of None \<Rightarrow> True | Some t \<Rightarrow> t \<le> l_timestamp l)
                 \<and> (case hi of None \<Rightarrow> True | Some t \<Rightarrow> l_timestamp l \<le> t + 86400000))"
proof -
  let ?q = "\<lparr>q_userId = user_id u, q_gte = lo, q_lte = map_option nextDay hi\<rparr>"
  let ?P = "\<lambda>l. l_userId l = user_id u
                \<and> (case lo of None \<Rightarrow> True | Some t \<Rightarrow> t \<le> l_timestamp l)
                \<and> (case hi of None \<Rightarrow> True | Some t \<Rightarrow> l_timestamp l \<le> t + 86400000)"
  let ?matching = "sort_key (\<lambda>l. - l_timestamp l) (filter ?P (logs (db s)))"
  let ?found = "take (nat n) (drop (nat ((p - 1) * n)) ?matching)"
  have q: "buildLogQuery b u req = Some ?q"
    by (rule buildLogQuery_Some[OF lower upper])
  have P: "matchesQuery ?q = ?P"
    by (rule ext) (rule matchesQuery_range)
  have skip: "\<not> (p - 1) * n < 0"
    using page_pos limit_pos by (simp add: not_less)
  have found: "findLogs ?q ((p - 1) * n) n (logs (db s)) = Some ?found"
    using skip limit_pos by (simp add: findLogs_def Let_def P)
  have "getLogs b env u req (db s) =
          \<lparr>status = 200,
           body = LogsBody (map (formatLog (db s)) ?found) (length (filter ?P (logs (db s))))
                    (Fin (of_int p)) (pageCount (length (filter ?P (logs (db s)))) n)\<rparr>"
    using q page limit find_ok count_ok found by (simp add: getLogs_def Let_def P)
  then have resp: "fst (handleRequest b env req s) =
          \<lparr>status = 200,
           body = LogsBody (map (formatLog (db s)) ?found) (length ?matching)
                    (Fin (of_int p)) (pageCount (length (filter ?P (logs (db s)))) n)\<rparr>"
    using handleRequest_logs[OF accepted endpoint auth] by simp
  have sorted: "sorted_wrt (\<lambda>x y. l_timestamp y \<le> l_timestamp x) ?found"
    by (intro sorted_wrt_take sorted_wrt_drop sorted_newest_first)
  have len: "length ?found \<le> nat n"
    by simp
  have "set ?found \<subseteq> set ?matching"
    by (meson set_take_subset set_drop_subset subset_trans)
  then have mem: "\<forall>l \<in> set ?found. l \<in> set (logs (db s)) \<and> ?P l"
    by auto
  from resp sorted len mem show ?thesis
    by blast
qed


text \<open>
  The request of the user alice for page 1 with limit 2 and the dates 2024-06-10 to
  2024-06-12, on a store with three logs of hers and one of another user.
\<close>

lemma auth_logs_request:
  "authenticateUser (example_env m) (db logs_server) logs_request = Inr alice"
  by (simp add: authenticateUser_def example_env_def logs_server_def store_with_logs_def
      logs_request_def admin_user_def alice_def bob_def)

lemma logs_request_params:
  "(case queryPage logs_request of None \<Rightarrow> Some 1 | Some x \<Rightarrow> parseInt example_builtins x) = Some 1"
  "(case queryLimit logs_request of None \<Rightarrow> Some 10 | Some x \<Rightarrow> parseInt example_builtins x) = Some 2"
  "dateParam example_builtins (queryStartDate logs_request) = map_option Some (Some 1717977600000)"
  "dateParam example_builtins (queryEndDate logs_request) = map_option Some (Some 1718150400000)"
  by (simp_all add: logs_request_def example_builtins_simps example_parseInt_def
      example_parseDate_def dateParam_def)

lemma matching_logs_request:
  "sort_key (\<lambda>l. - l_timestamp l)
     (filter (\<lambda>l. l_userId l = user_id alice
                 \<and> (case Some 1717977600000 of None \<Rightarrow> True | Some t \<Rightarrow> t \<le> l_timestamp l)
                 \<and> (case Some 1718150400000 of None \<Rightarrow> True
                     | Some t \<Rightarrow> l_timestamp l \<le> t + 86400000))
        (logs (db logs_server)))
   = [example_log 2 1718236800000, example_log 2 1718100000000, example_log 2 1718000000000]"
  by (simp add: logs_server_def store_with_logs_def example_log_def alice_def)

lemma pageCount_3_2: "pageCount 3 2 = Fin 2"
proof -
  have "\<lceil>(3::rat) / 2\<rceil> = 2"
    by (rule ceiling_unique) simp_all
  then show ?thesis by (simp add: pageCount_def)
qed

lemma pageCount_3_2': "pageCount (Suc (Suc (Suc 0))) 2 = Fin 2"
  using pageCount_3_2 by (simp add: numeral_3_eq_3)

lemma getLogs_example:
  "handleRequest example_builtins (example_env replies_empty) logs_request logs_server =
     (\<lparr>status = 200,
       body = LogsBody (map (formatLog store_with_logs)
                          [example_log 2 1718236800000, example_log 2 1718100000000])
                3 (Fin 1) (Fin 2)\<rparr>, logs_server)"
proof -
  have q: "buildLogQuery example_builtins alice logs_request =
             Some \<lparr>q_userId = 2, q_gte = Some 1717977600000, q_lte = Some 1718236800000\<rparr>"
    using buildLogQuery_Some[OF logs_request_params(3,4), of alice]
    by (simp add: alice_def nextDay_def)
  have m: "filter (matchesQuery \<lparr>q_userId = 2, q_gte = Some 1717977600000, q_lte = Some 1718236800000\<rparr>)
             (logs store_with_logs)
           = [example_log 2 1718000000000, example_log 2 1718236800000, example_log 2 1718100000000]"
    by (simp add: matchesQuery_def store_with_logs_def example_log_def)
  have f: "findLogs \<lparr>q_userId = 2, q_gte = Some 1717977600000, q_lte = Some 1718236800000\<rparr>
             0 2 (logs store_with_logs)
           = Some [example_log 2 1718236800000, example_log 2 1718100000000]"
    unfolding findLogs_def m by (simp add: example_log_def)
  have "getLogs example_builtins (example_env replies_empty) alice logs_request store_with_logs =
          \<lparr>status = 200,
           body = LogsBody (map (formatLog store_with_logs)
                              [example_log 2 1718236800000, example_log 2 1718100000000])
                    3 (Fin 1) (Fin 2)\<rparr>"
    using logs_request_params(1,2)
    by (simp add: getLogs_def q m f example_env_simps pageCount_3_2')
  then show ?thesis
    using handleRequest_logs[of logs_request "example_env replies_empty" logs_server alice
        example_builtins] auth_logs_request[of replies_empty]
    by (simp add: logs_request_def logs_server_def)
qed

text \<open>The theorem at that request: the two newest of her three logs, newest first.\<close>

theorem logs_page_witness:
  "authenticateUser (example_env replies_empty) (db logs_server) logs_request = Inr alice
   \<and> (\<exists>found pages.
         fst (handleRequest example_builtins (example_env replies_empty) logs_request logs_server) =
           \<lparr>status = 200,
            body = LogsBody (map (formatLog (db logs_server)) found) 3 (Fin 1) pages\<rparr>
         \<and> found = [example_log 2 1718236800000, example_log 2 1718100000000]
         \<and> sorted_wrt (\<lambda>x y. l_timestamp y \<le> l_timestamp x) found
         \<and> length found \<le> 2)"
proof -
  have endpoint: "route logs_request = GetLogs"
    and accepted: "\<not> malformedBody logs_request"
    by (simp_all add: logs_request_def)
  have find_ok: "FindLogs \<notin> fails (example_env replies_empty)"
    and count_ok: "CountLogs \<notin> fails (example_env replies_empty)"
    by (simp_all add: example_env_simps)
  have page_pos: "(1::int) \<le> 1" and limit_pos: "(1::int) \<le> 2"
    by simp_all
  from logs_page[OF accepted endpoint auth_logs_request find_ok count_ok logs_request_params(1) page_pos
      logs_request_params(2) limit_pos logs_request_params(3,4)]
  obtain found matching pages where
    resp: "fst (handleRequest example_builtins (example_env replies_empty) logs_request logs_server) =
             \<lparr>status = 200,
              body = LogsBody (map (formatLog (db logs_server)) found) (length matching)
                       (Fin (of_int 1)) pages\<rparr>"
    and matching: "matching = [example_log 2 1718236800000, example_log 2 1718100000000,
                               example_log 2 1718000000000]"
    and found: "found = take (nat 2) (drop (nat ((1 - 1) * 2)) matching)"
    and sorted: "sorted_wrt (\<lambda>x y. l_timestamp y \<le> l_timestamp x) found"
    and len: "length found \<le> nat 2"
    unfolding matching_logs_request by auto
  have "found = [example_log 2 1718236800000, example_log 2 1718100000000]"
    using found matching by simp
  with resp matching sorted len auth_logs_request[of replies_empty] show ?thesis
    by auto
qed


text \<open>
  C8 as the specification states it fails on the end of the range: the same request,
  whose end date is 2024-06-12, is answered with the log whose time is
  2024-06-13T00:00:00.000Z, one day after the end date to the millisecond.
\<close>

theorem logs_include_day_after_end:
  "queryStartDate logs_request = Some ''2024-06-10''
   \<and> queryEndDate logs_request = Some ''2024-06-12''
   \<and> parseDate example_builtins ''2024-06-12'' = Some 1718150400000
   \<and> example_log 2 (1718150400000 + 86400000) \<in> set (logs (db logs_server))
   \<and> fst (handleRequest example_builtins (example_env replies_empty) logs_request logs_server) =
       \<lparr>status = 200,
        body = LogsBody (map (formatLog store_with_logs)
                           [example_log 2 (1718150400000 + 86400000), example_log 2 1718100000000])
                 3 (Fin 1) (Fin 2)\<rparr>"
  by (simp add: getLogs_example)
    (simp add: logs_request_def example_builtins_simps example_parseDate_def logs_server_def
      store_with_logs_def)

section \<open>The listing of users\<close>

lemma find_map_same:
  assumes "\<And>x. P (g x) = P x"
  shows "find P (map g xs) = map_option g (find P xs)"
  using assms by (induction xs) simp_all

lemma insort_key_map_same:
  assumes "\<And>x. k (g x) = k x"
  shows "insort_key k (g x) (map g xs) = map g (insort_key k x xs)"
  using assms by (induction xs) simp_all

lemma sort_key_map_same:
  assumes "\<And>x. k (g x) = k x"
  shows "sort_key k (map g xs) = map g (sort_key k xs)"
  using assms by (induction xs) (simp_all add: insort_key_map_same)

lemma filter_map_same:
  assumes "\<And>x. P (g x) = P x"
  shows "filter P (map g xs) = map g (filter P xs)"
  using assms by (induction xs) simp_all

lemma authenticateUser_counts:
  "authenticateUser env (st\<lparr>users := map (\<lambda>u. u\<lparr>requestCount := f u\<rparr>) (users st)\<rparr>) req =
     map_sum id (\<lambda>u. u\<lparr>requestCount := f u\<rparr>) (authenticateUser env st req)"
  by (simp add: authenticateUser_def find_map_same split: option.splits)

lemma requireAdmin_counts:
  "requireAdmin env (st\<lparr>users := map (\<lambda>u. u\<lparr>requestCount := f u\<rparr>) (users st)\<rparr>)
     (u\<lparr>requestCount := c\<rparr>) = requireAdmin env st u"
  by (simp add: requireAdmin_def find_map_same split: option.splits)

lemma listUsers_counts:
  "listUsers env (st\<lparr>users := map (\<lambda>u. u\<lparr>requestCount := f u\<rparr>) (users st)\<rparr>) = listUsers env st"
proof -
  have "userWithCount (st\<lparr>users := map (\<lambda>u. u\<lparr>requestCount := f u\<rparr>) (users st)\<rparr>)
          (x\<lparr>requestCount := f x\<rparr>) = userWithCount st x" for x
    by (simp add: userWithCount_def countLogs_def)
  then show ?thesis
    by (simp add: listUsers_def Let_def filter_map_same sort_key_map_same)
qed

lemma handleRequest_list_counts:
  assumes "route req = GetAdminUsers"
  shows "fst (handleRequest b env req
                (s\<lparr>db := (db s)\<lparr>users := map (\<lambda>u. u\<lparr>requestCount := f u\<rparr>) (users (db s))\<rparr>\<rparr>))
           = fst (handleRequest b env req s)"
proof (cases "authenticateUser env (db s) req")
  case (Inl r)
  then show ?thesis
    using assms by (simp add: handleRequest_def routeRequest_def authenticateUser_counts)
next
  case (Inr u)
  then show ?thesis
    using assms
    by (cases "requireAdmin env (db s) u")
      (simp_all add: handleRequest_def routeRequest_def authenticateUser_counts requireAdmin_counts listUsers_counts)
qed

lemma handleRequest_list_ok:
  assumes "route req = GetAdminUsers"
    and "fst (handleRequest b env req s) = \<lparr>status = 200, body = UserListBody es\<rparr>"
  shows "es = map (userWithCount (db s))
                (sort_key (\<lambda>u. - createdAt u) (filter (\<lambda>u. \<not> isAdmin u) (users (db s))))"
proof (cases "authenticateUser env (db s) req")
  case (Inl r)
  then have "r = \<lparr>status = 200, body = UserListBody es\<rparr>"
    using assms by (simp add: handleRequest_def routeRequest_def split: if_splits)
  with Inl show ?thesis
    by (auto simp: authenticateUser_def errorResponse_def split: option.splits if_splits)
next
  case (Inr u)
  show ?thesis
  proof (cases "requireAdmin env (db s) u")
    case (Inl r)
    then have "r = \<lparr>status = 200, body = UserListBody es\<rparr>"
      using assms Inr by (simp add: handleRequest_def routeRequest_def split: if_splits)
    with Inl show ?thesis
      by (auto simp: requireAdmin_def errorResponse_def split: option.splits if_splits)
  next
    case ok: (Inr x)
    then have "listUsers env (db s) = \<lparr>status = 200, body = UserListBody es\<rparr>"
      using assms Inr by (simp add: handleRequest_def routeRequest_def split: if_splits)
    then show ?thesis
      by (auto simp: listUsers_def Let_def errorResponse_def split: if_splits)
  qed
qed

text \<open>
  C9. In a successful answer to GET /api/admin/users each entry belongs to a stored
  user that is not an administrator, and its request count is the number of logs of
  that user in the store at the time of the query. The count stored with the user
  plays no part: the answer is the same whatever the stored counts are.
\<close>

theorem listed_request_count:
  assumes endpoint: "route req = GetAdminUsers"
    and ok: "fst (handleRequest b env req s) = \<lparr>status = 200, body = UserListBody es\<rparr>"
  shows "(\<forall>e \<in> set es.
            e_requestCount e = length (filter (\<lambda>l. l_userId l = e_id e) (logs (db s)))
            \<and> (\<exists>u \<in> set (users (db s)). user_id u = e_id e \<and> \<not> isAdmin u))
       \<and> (\<forall>f. fst (handleRequest b env req
                      (s\<lparr>db := (db s)\<lparr>users := map (\<lambda>u. u\<lparr>requestCount := f u\<rparr>)
                                                  (users (db s))\<rparr>\<rparr>))
                = \<lparr>status = 200, body = UserListBody es\<rparr>)"
proof -
  have es: "es = map (userWithCount (db s))
                   (sort_key (\<lambda>u. - createdAt u) (filter (\<lambda>u. \<not> isAdmin u) (users (db s))))"
    by (rule handleRequest_list_ok[OF endpoint ok])
  have "\<forall>e \<in> set es.
          e_requestCount e = length (filter (\<lambda>l. l_userId l = e_id e) (logs (db s)))
          \<and> (\<exists>u \<in> set (users (db s)). user_id u = e_id e \<and> \<not> isAdmin u)"
    unfolding es by (auto simp: userWithCount_def countLogs_def)
  moreover have "\<forall>f. fst (handleRequest b env req
                      (s\<lparr>db := (db s)\<lparr>users := map (\<lambda>u. u\<lparr>requestCount := f u\<rparr>)
                                                  (users (db s))\<rparr>\<rparr>))
                = \<lparr>status = 200, body = UserListBody es\<rparr>"
    using handleRequest_list_counts[OF endpoint] ok by simp
  ultimately show ?thesis by blast
qed

text \<open>
  The theorem after a submission of the user alice and the expiry of its log: the
  listing gives her the count 0, the number of her logs, while the count stored with
  her is 1.
\<close>

lemma db_server_after_expiry:
  "db server_after_expiry =
     \<lparr>users = [admin_user, alice\<lparr>requestCount := 1\<rparr>, bob],
      transactions = [\<lparr>t_userId = 2, t_date = JStr ''12 Jun 2024'', t_utr = JStr [],
                       t_amount_in_inr = JStr ''2500.00'', t_createdAt = 1718200000000\<rparr>],
      logs = []\<rparr>"
  by (simp add: server_after_expiry_def handleRequest_empty_utr expireLogs_def)

lemma list_after_expiry:
  "fst (handleRequest example_builtins (example_env replies_empty)
          (example_request GetAdminUsers (Some ''key_admin'')) server_after_expiry) =
     \<lparr>status = 200,
      body = UserListBody
               [\<lparr>e_id = 3, e_name = ''Bob'', e_email = ''bob@example.com'',
                 e_apiKey = ''key_bob'', e_requestCount = 0, e_createdAt = 1717400000000\<rparr>,
                \<lparr>e_id = 2, e_name = ''Alice'', e_email = ''alice@example.com'',
                 e_apiKey = ''key_alice'', e_requestCount = 0, e_createdAt = 1717300000000\<rparr>]\<rparr>"
proof -
  have auth: "authenticateUser (example_env replies_empty) (db server_after_expiry)
                (example_request GetAdminUsers (Some ''key_admin'')) = Inr admin_user"
    by (simp add: authenticateUser_def db_server_after_expiry example_request_simps
        example_env_simps admin_user_def)
  have adm: "requireAdmin (example_env replies_empty) (db server_after_expiry) admin_user = Inr ()"
    by (simp add: requireAdmin_def db_server_after_expiry example_env_simps admin_user_def)
  have "listUsers (example_env replies_empty) (db server_after_expiry) =
     \<lparr>status = 200,
      body = UserListBody
               [\<lparr>e_id = 3, e_name = ''Bob'', e_email = ''bob@example.com'',
                 e_apiKey = ''key_bob'', e_requestCount = 0, e_createdAt = 1717400000000\<rparr>,
                \<lparr>e_id = 2, e_name = ''Alice'', e_email = ''alice@example.com'',
                 e_apiKey = ''key_alice'', e_requestCount = 0, e_createdAt = 1717300000000\<rparr>]\<rparr>"
    by (simp add: listUsers_def db_server_after_expiry example_env_simps admin_user_def alice_def
        bob_def userWithCount_def countLogs_def)
  then show ?thesis
    by (simp add: handleRequest_def routeRequest_def example_request_simps auth adm)
qed

theorem listed_request_count_witness:
  "fst (handleRequest example_builtins (example_env replies_empty)
          (example_request GetAdminUsers (Some ''key_admin'')) server_after_expiry) =
     \<lparr>status = 200,
      body = UserListBody
               [\<lparr>e_id = 3, e_name = ''Bob'', e_email = ''bob@example.com'',
                 e_apiKey = ''key_bob'', e_requestCount = 0, e_createdAt = 1717400000000\<rparr>,
                \<lparr>e_id = 2, e_name = ''Alice'', e_email = ''alice@example.com'',
                 e_apiKey = ''key_alice'', e_requestCount = 0, e_createdAt = 1717300000000\<rparr>]\<rparr>
   \<and> length (filter (\<lambda>l. l_userId l = 2) (logs (db server_after_expiry))) = 0
   \<and> map requestCount (filter (\<lambda>u. user_id u = 2) (users (db server_after_expiry))) = [1]"
proof -
  have endpoint: "route (example_request GetAdminUsers (Some ''key_admin'')) = GetAdminUsers"
    by (simp add: example_request_simps)
  from listed_request_count[OF endpoint list_after_expiry]
  have "length (filter (\<lambda>l. l_userId l = 2) (logs (db server_after_expiry))) = 0"
    by simp
  moreover have "map requestCount (filter (\<lambda>u. user_id u = 2) (users (db server_after_expiry))) = [1]"
    by (simp add: db_server_after_expiry admin_user_def alice_def bob_def)
  ultimately show ?thesis
    using list_after_expiry by simp
qed


end
